theory Spec2Isabelle
  imports Complex_Main "HOL-Library.Word" "HOL-Library.Multiset"
begin

section \<open>Data model of \<^verbatim>\<open>etl.py\<close>\<close>

text \<open>
  The job reads two collections of JSON objects and writes five parquet datasets. A
  data frame is modelled as its columns and the list of its rows. The engine gives no
  order guarantee: the order in which the rows of the join come is a parameter of the
  session, and no property below depends on the order of the rows of a table, save that
  the identifiers are issued in the order of partition and row. JSON schema inference
  makes every column nullable, so every column is an \<open>option\<close> (\<open>None\<close> is SQL
  \<open>NULL\<close>). Floating-point columns (duration, latitude, longitude) are only ever
  projected and compared for equality, never computed with; they are carried as
  \<open>real\<close>.
\<close>

record song_record =
  song_id :: "string option"
  title :: "string option"
  artist_id :: "string option"
  year :: "int option"
  duration :: "real option"
  artist_name :: "string option"
  artist_location :: "string option"
  artist_latitude :: "real option"
  artist_longitude :: "real option"

record log_record =
  artist :: "string option"
  firstName :: "string option"
  gender :: "string option"
  lastName :: "string option"
  level :: "string option"
  location :: "string option"
  page :: "string option"
  sessionId :: "int option"
  ts :: "int option"
  userAgent :: "string option"
  userId :: "string option"

text \<open>
  The columns of a data frame read from JSON are the keys that occur in at least one of
  the objects read; in a row, a key that its object does not have reads as \<open>NULL\<close>,
  as does a key given as \<^verbatim>\<open>null\<close>. Only the keys that the job refers to are part of
  the model.
\<close>

datatype song_column =
  Song_id | Title | Artist_id | Year | Duration
  | Artist_name | Artist_location | Artist_latitude | Artist_longitude

datatype log_column =
  Artist | FirstName | Gender | LastName | Level | Location | Page
  | SessionId | Ts | UserAgent | UserId

text \<open>Rows of the five output tables; the field prefix names the table.\<close>

record songs_row =
  s_song_id :: "string option"
  s_title :: "string option"
  s_artist_id :: "string option"
  s_year :: "int option"
  s_duration :: "real option"

record artists_row =
  a_artist_id :: "string option"
  a_name :: "string option"
  a_location :: "string option"
  a_latitude :: "real option"
  a_longitude :: "real option"

record users_row =
  u_user_id :: "string option"
  u_first_name :: "string option"
  u_last_name :: "string option"
  u_gender :: "string option"
  u_level :: "string option"

text \<open>
  A timestamp column holds microseconds since the Unix epoch (the engine's
  \<^verbatim>\<open>TimestampType\<close>).
\<close>

record time_row =
  t_start_time :: int
  t_hour :: int
  t_day :: int
  t_week :: int
  t_month :: int
  t_year :: int
  t_weekday :: int

record songplays_row =
  songplay_id :: "64 word"
  sp_start_time :: int
  sp_user_id :: "string option"
  sp_level :: "string option"
  sp_song_id :: "string option"
  sp_artist_id :: "string option"
  sp_session_id :: "int option"
  sp_location :: "string option"
  sp_user_agent :: "string option"
  sp_month :: int
  sp_year :: int

text \<open>
  What the job can raise: a read from a path that matches no file, a write to a path that
  exists, a reference \<^verbatim>\<open>df['c']\<close> or \<^verbatim>\<open>df[['c', ...]]\<close> to a column that the data
  frame does not have (\<^verbatim>\<open>AnalysisException\<close>), an attribute \<^verbatim>\<open>df.c\<close> that it does
  not have (\<^verbatim>\<open>AttributeError\<close>), and the \<^verbatim>\<open>TypeError\<close> of the timestamp function
  on \<open>NULL\<close>.
\<close>

datatype error =
  PathNotFound
  | PathAlreadyExists string
  | UnresolvedColumn
  | NoSuchAttribute
  | UdfTypeError

section \<open>Engine primitives used by the job\<close>

text \<open>
  \<^verbatim>\<open>dropDuplicates()\<close> without a column subset keeps one row of every class of rows
  that are equal on all columns; \<open>NULL\<close>s compare equal there.
\<close>

definition dropDuplicates :: "'a list \<Rightarrow> 'a list" where
  "dropDuplicates rows = remdups rows"

text \<open>
  A comparison \<^verbatim>\<open>a == b\<close> used as a filter or join condition keeps a row only when
  the comparison is true; a comparison with \<open>NULL\<close> is never true. Strings compare
  byte by byte.
\<close>

definition sql_eq :: "'a option \<Rightarrow> 'a option \<Rightarrow> bool" where
  "sql_eq a b = (case a of None \<Rightarrow> False
                 | Some x \<Rightarrow> (case b of None \<Rightarrow> False | Some y \<Rightarrow> x = y))"

subsection \<open>Calendar fields of a timestamp\<close>

text \<open>
  The session evaluates calendar functions in its local time zone. The zone is a
  parameter of the model: a constant offset \<open>tz\<close> in seconds east of UTC; a zone that
  changes its offset (daylight saving) is outside the model. The calendar is the
  proleptic Gregorian one.
\<close>

definition local_seconds :: "int \<Rightarrow> int \<Rightarrow> int" where
  "local_seconds tz micros = micros div 1000000 + tz"

definition local_days :: "int \<Rightarrow> int \<Rightarrow> int" where
  "local_days tz micros = local_seconds tz micros div 86400"

text \<open>
  Day number (days since 1970-01-01) to year, month, day of month. The count is shifted
  to start on 0000-03-01, so that the leap day is the last day of a shifted year; 146097
  is the number of days of a 400-year cycle.
\<close>

definition civil_from_days :: "int \<Rightarrow> int \<times> int \<times> int" where
  "civil_from_days n =
     (let z = n + 719468;
          era = z div 146097;
          doe = z - era * 146097;
          yoe = (doe - doe div 1460 + doe div 36524 - doe div 146096) div 365;
          doy = doe - (365 * yoe + yoe div 4 - yoe div 100);
          mp = (5 * doy + 2) div 153;
          d = doy - (153 * mp + 2) div 5 + 1;
          m = (if mp < 10 then mp + 3 else mp - 9);
          y = yoe + era * 400 + (if m \<le> 2 then 1 else 0)
      in (y, m, d))"

definition days_from_civil :: "int \<Rightarrow> int \<Rightarrow> int \<Rightarrow> int" where
  "days_from_civil y m d =
     (let y' = (if m \<le> 2 then y - 1 else y);
          era = y' div 400;
          yoe = y' - era * 400;
          mp = (if m > 2 then m - 3 else m + 9);
          doy = (153 * mp + 2) div 5 + d - 1;
          doe = yoe * 365 + yoe div 4 - yoe div 100 + doy
      in era * 146097 + doe - 719468)"

definition year_of :: "int \<Rightarrow> int \<Rightarrow> int" where
  "year_of tz micros = fst (civil_from_days (local_days tz micros))"

definition month_of :: "int \<Rightarrow> int \<Rightarrow> int" where
  "month_of tz micros = fst (snd (civil_from_days (local_days tz micros)))"

definition dayofmonth :: "int \<Rightarrow> int \<Rightarrow> int" where
  "dayofmonth tz micros = snd (snd (civil_from_days (local_days tz micros)))"

definition hour_of :: "int \<Rightarrow> int \<Rightarrow> int" where
  "hour_of tz micros = (local_seconds tz micros mod 86400) div 3600"

text \<open>
  \<^verbatim>\<open>dayofweek\<close>: 1 is Sunday, 2 is Monday, ..., 7 is Saturday. Day number 0
  (1970-01-01) was a Thursday.
\<close>

definition dayofweek :: "int \<Rightarrow> int \<Rightarrow> int" where
  "dayofweek tz micros = (local_days tz micros + 4) mod 7 + 1"

text \<open>
  \<^verbatim>\<open>weekofyear\<close>: the ISO 8601 week number. A week starts on Monday and belongs to
  the year that holds its Thursday; the number is the rank of that Thursday among the
  Thursdays of its year.
\<close>

definition weekofyear :: "int \<Rightarrow> int \<Rightarrow> int" where
  "weekofyear tz micros =
     (let n = local_days tz micros;
          thursday = n - (n + 3) mod 7 + 3;
          y = fst (civil_from_days thursday)
      in (thursday - days_from_civil y 1 1) div 7 + 1)"

section \<open>The timestamp function of the event transform\<close>

text \<open>
  \<^verbatim>\<open>get_timestamp = udf(lambda x: datetime.fromtimestamp(x / 1000.0), TimestampType())\<close>

  On \<open>NULL\<close> the lambda divides \<^verbatim>\<open>None\<close> by a float and raises. Otherwise the
  value is divided by \<^verbatim>\<open>1000.0\<close> in double precision, \<^verbatim>\<open>fromtimestamp\<close> rounds the
  quotient to a local datetime with a microsecond field, and the conversion to the
  timestamp column goes back through \<^verbatim>\<open>time.mktime\<close>:
  \<^verbatim>\<open>int(seconds) * 1000000 + dt.microsecond\<close>.

  For \<open>0 \<le> ts < 2 ^ 33 * 1000\<close> (the instants from 1970 into the year 2242) the quotient
  is less than \<open>2 ^ 33\<close>, so it is at most \<open>2 ^ - 21\<close> seconds, less than half a
  microsecond, off \<open>ts / 1000\<close>, and the rounding to microseconds returns the exact
  value; in a zone of constant offset the way to local time and back cancels. The column
  then holds \<open>ts\<close> milliseconds after the epoch, in microseconds.

  Outside that range the outcome depends on the rounding of the division (from
  \<open>2 ^ 33 * 1000\<close> on, the stored value can be some microseconds off), on the range of
  \<^verbatim>\<open>datetime\<close> (a raise outside the years 1 to 9999) and on the platform (negative
  values). The model leaves it open: \<open>fromtimestamp_elsewhere\<close> is some fixed function
  of \<open>ts\<close>, of which nothing is assumed.
\<close>

definition fromtimestamp_elsewhere :: "int \<Rightarrow> error + int" where
  "fromtimestamp_elsewhere = (SOME f. True)"

definition get_timestamp :: "int option \<Rightarrow> error + int" where
  "get_timestamp x =
     (case x of
        None \<Rightarrow> Inl UdfTypeError
      | Some ms \<Rightarrow>
          if 0 \<le> ms \<and> ms < 2 ^ 33 * 1000 then Inr (ms * 1000) else fromtimestamp_elsewhere ms)"

definition time_columns :: "int \<Rightarrow> int \<Rightarrow> time_row" where
  "time_columns tz st =
     \<lparr> t_start_time = st,
       t_hour = hour_of tz st,
       t_day = dayofmonth tz st,
       t_week = weekofyear tz st,
       t_month = month_of tz st,
       t_year = year_of tz st,
       t_weekday = dayofweek tz st \<rparr>"

section \<open>Reading and writing\<close>

text \<open>
  \<^verbatim>\<open>spark.read.json(path)\<close> raises when the path matches no file. The two inputs are
  what the globs under \<^verbatim>\<open>input_data\<close> resolve to: the objects read, \<open>None\<close> for a
  glob that matches nothing, and the keys that occur in the objects. Both transforms read
  the catalog records from the same files.
\<close>

record inputs =
  song_data :: "song_record list option"
  song_columns :: "song_column list"
  log_data :: "log_record list option"
  log_columns :: "log_column list"

text \<open>
  The data frame read has the keys of the objects as its columns; files without any
  object give a data frame without columns.
\<close>

definition read_json :: "'c list \<Rightarrow> 'a list option \<Rightarrow> error + ('c list \<times> 'a list)" where
  "read_json keys files =
     (case files of
        None \<Rightarrow> Inl PathNotFound
      | Some rows \<Rightarrow> Inr (if rows = [] then [] else keys, rows))"

text \<open>
  A reference to columns is resolved when the data frame is built, before any row is
  looked at: all the columns named must be columns of the data frame.
\<close>

definition resolved :: "'c list \<Rightarrow> 'c list \<Rightarrow> bool" where
  "resolved columns wanted \<longleftrightarrow> set wanted \<subseteq> set columns"

text \<open>
  The output store maps a path to the dataset written there: its partition columns and
  its rows. \<^verbatim>\<open>DataFrameWriter.parquet\<close> runs in its default mode, which raises when
  the path exists already. A write is taken as atomic.
\<close>

datatype table =
  SongsTable "songs_row list"
  | ArtistsTable "artists_row list"
  | UsersTable "users_row list"
  | TimeTable "time_row list"
  | SongplaysTable "songplays_row list"

type_synonym store = "string \<Rightarrow> (string list \<times> table) option"

definition write_parquet :: "string list \<Rightarrow> table \<Rightarrow> string \<Rightarrow> store \<Rightarrow> error + store" where
  "write_parquet partitionBy rows path fs =
     (case fs path of
        Some old \<Rightarrow> Inl (PathAlreadyExists path)
      | None \<Rightarrow> Inr (fs(path \<mapsto> (partitionBy, rows))))"

text \<open>
  What the session contributes beyond the code of the job: the time zone of the calendar
  functions, the order in which the engine emits the rows of the join, and the way it
  lays them out in partitions (the sizes of the leading partitions; what is left over is
  the last partition).
\<close>

record spark_session =
  time_zone :: int
  join_order :: "nat list"
  join_layout :: "nat list"

text \<open>
  The order of the rows of the join is given by sort keys, one for each row (0 where the
  list of keys is too short): the rows come sorted by their keys, rows of equal keys in
  the order of the nested loop. The list of keys so ranges over the orders in which the
  rows can come.
\<close>

definition engine_order :: "nat list \<Rightarrow> 'a list \<Rightarrow> 'a list" where
  "engine_order keys rows =
     map snd (sort_key fst (zip (take (length rows) (keys @ replicate (length rows) 0)) rows))"

fun partitions :: "nat list \<Rightarrow> 'a list \<Rightarrow> 'a list list" where
  "partitions [] rows = [rows]"
| "partitions (n # ns) rows = take n rows # partitions ns (drop n rows)"

section \<open>The catalog transform: \<^verbatim>\<open>process_song_data\<close>\<close>

definition songs_table :: "song_record list \<Rightarrow> songs_row list" where
  "songs_table df =
     dropDuplicates
       (map (\<lambda>r. \<lparr> s_song_id = song_id r, s_title = title r, s_artist_id = artist_id r,
                   s_year = year r, s_duration = duration r \<rparr>) df)"

definition artists_table :: "song_record list \<Rightarrow> artists_row list" where
  "artists_table df =
     dropDuplicates
       (map (\<lambda>r. \<lparr> a_artist_id = artist_id r, a_name = artist_name r,
                   a_location = artist_location r, a_latitude = artist_latitude r,
                   a_longitude = artist_longitude r \<rparr>) df)"

text \<open>
  A transform returns the error it raised, if any, and the store as it left it: a raise
  undoes nothing that was written before it. The columns of the artists table are
  selected after the songs table is written.
\<close>

definition process_song_data ::
    "spark_session \<Rightarrow> inputs \<Rightarrow> string \<Rightarrow> store \<Rightarrow> error option \<times> store" where
  "process_song_data spark input_data output_data fs =
     (case read_json (song_columns input_data) (song_data input_data) of
        Inl e \<Rightarrow> (Some e, fs)
      | Inr (columns, df) \<Rightarrow>
          if \<not> resolved columns [Song_id, Title, Artist_id, Year, Duration]
          then (Some UnresolvedColumn, fs)
          else
          (case write_parquet [''year'', ''artist_id''] (SongsTable (songs_table df))
                  (output_data @ ''/tbl_songs.parquet'') fs of
             Inl e \<Rightarrow> (Some e, fs)
           | Inr fs1 \<Rightarrow>
               if \<not> resolved columns
                      [Artist_id, Artist_name, Artist_location, Artist_latitude, Artist_longitude]
               then (Some UnresolvedColumn, fs1)
               else
               (case write_parquet [] (ArtistsTable (artists_table df))
                       (output_data @ ''/tbl_artists.parquet'') fs1 of
                  Inl e \<Rightarrow> (Some e, fs1)
                | Inr fs2 \<Rightarrow> (None, fs2))))"

section \<open>The event transform: \<^verbatim>\<open>process_log_data\<close>\<close>

text \<open>\<^verbatim>\<open>df = df[df['page'] == 'NextSong']\<close>\<close>

definition next_song :: "log_record list \<Rightarrow> log_record list" where
  "next_song df = filter (\<lambda>r. sql_eq (page r) (Some ''NextSong'')) df"

definition users_table :: "log_record list \<Rightarrow> users_row list" where
  "users_table df =
     dropDuplicates
       (map (\<lambda>r. \<lparr> u_user_id = userId r, u_first_name = firstName r,
                   u_last_name = lastName r, u_gender = gender r, u_level = level r \<rparr>) df)"

text \<open>
  The seven \<^verbatim>\<open>withColumn\<close> calls: a row of the data frame after them is the activity
  record together with its seven time columns. The first raise of the timestamp function
  fails the job.
\<close>

fun with_time_columns :: "int \<Rightarrow> log_record list \<Rightarrow> error + (log_record \<times> time_row) list" where
  "with_time_columns tz [] = Inr []"
| "with_time_columns tz (r # rs) =
     (case get_timestamp (ts r) of
        Inl e \<Rightarrow> Inl e
      | Inr st \<Rightarrow>
          (case with_time_columns tz rs of
             Inl e \<Rightarrow> Inl e
           | Inr rows \<Rightarrow> Inr ((r, time_columns tz st) # rows)))"

definition time_table :: "(log_record \<times> time_row) list \<Rightarrow> time_row list" where
  "time_table df = dropDuplicates (map snd df)"

text \<open>
  \<^verbatim>\<open>df.join(song_df, song_df.artist_name == df.artist, 'inner')\<close>: every pair of an
  activity row and a catalog row on which the condition is true. (The catalog column
  \<^verbatim>\<open>year\<close> is renamed before the join and not used after it: in the joined row
  \<^verbatim>\<open>year\<close> is the column derived from the start time.) The pairs are listed here in
  the order of a nested loop; the engine emits them in an order of its own
  (\<open>engine_order\<close>).
\<close>

definition join_inner ::
    "(log_record \<times> time_row) list \<Rightarrow> song_record list \<Rightarrow> ((log_record \<times> time_row) \<times> song_record) list" where
  "join_inner df song_df =
     concat (map (\<lambda>l. map (Pair l) (filter (\<lambda>s. sql_eq (artist_name s) (artist (fst l))) song_df)) df)"

text \<open>
  \<^verbatim>\<open>monotonically_increasing_id()\<close>: a 64-bit integer with the index of the partition
  in the upper 31 bits and the number of the row within its partition in the lower 33
  bits.
\<close>

definition monotonically_increasing_id :: "nat \<Rightarrow> nat \<Rightarrow> 64 word" where
  "monotonically_increasing_id partition_index row_number =
     push_bit 33 (word_of_nat partition_index) + word_of_nat row_number"

fun withColumn_id :: "nat \<Rightarrow> 'a list list \<Rightarrow> (64 word \<times> 'a) list" where
  "withColumn_id p [] = []"
| "withColumn_id p (rows # rest) =
     map (\<lambda>(i, r). (monotonically_increasing_id p i, r)) (enumerate 0 rows)
       @ withColumn_id (Suc p) rest"

definition songplays_row_of :: "64 word \<times> (log_record \<times> time_row) \<times> song_record \<Rightarrow> songplays_row" where
  "songplays_row_of x =
     (case x of (sid, (l, t), s) \<Rightarrow>
        \<lparr> songplay_id = sid, sp_start_time = t_start_time t, sp_user_id = userId l,
          sp_level = level l, sp_song_id = song_id s, sp_artist_id = artist_id s,
          sp_session_id = sessionId l, sp_location = location l,
          sp_user_agent = userAgent l, sp_month = t_month t, sp_year = t_year t \<rparr>)"

definition songplays_table ::
    "nat list \<Rightarrow> nat list \<Rightarrow> (log_record \<times> time_row) list \<Rightarrow> song_record list
       \<Rightarrow> songplays_row list" where
  "songplays_table order layout df song_df =
     map songplays_row_of
       (withColumn_id 0 (partitions layout (engine_order order (join_inner df song_df))))"

text \<open>
  The steps of the transform, in the order of the code. The timestamp function runs when
  the time table is written. The columns of the songplays table are selected from the
  joined rows: those of the activity side must be columns of the log, those of the catalog
  side columns of the catalog.
\<close>

definition process_log_data ::
    "spark_session \<Rightarrow> inputs \<Rightarrow> string \<Rightarrow> store \<Rightarrow> error option \<times> store" where
  "process_log_data spark input_data output_data fs =
     (case read_json (log_columns input_data) (log_data input_data) of
        Inl e \<Rightarrow> (Some e, fs)
      | Inr (columns, logs) \<Rightarrow>
          if \<not> resolved columns [Page] then (Some UnresolvedColumn, fs)
          else
          (let df = next_song logs in
           if \<not> resolved columns [UserId, FirstName, LastName, Gender, Level]
           then (Some UnresolvedColumn, fs)
           else
           (case write_parquet [] (UsersTable (users_table df))
                  (output_data @ ''/tbl_users.parquet'') fs of
             Inl e \<Rightarrow> (Some e, fs)
           | Inr fs1 \<Rightarrow>
               if \<not> resolved columns [Ts] then (Some NoSuchAttribute, fs1)
               else
               (case with_time_columns (time_zone spark) df of
                  Inl e \<Rightarrow> (Some e, fs1)
                | Inr df' \<Rightarrow>
                    (case write_parquet [''year'', ''month''] (TimeTable (time_table df'))
                            (output_data @ ''/tbl_time.parquet'') fs1 of
                       Inl e \<Rightarrow> (Some e, fs1)
                     | Inr fs2 \<Rightarrow>
                         (case read_json (song_columns input_data) (song_data input_data) of
                            Inl e \<Rightarrow> (Some e, fs2)
                          | Inr (columns', song_df) \<Rightarrow>
                              if \<not> resolved columns' [Artist_name]
                                 \<or> \<not> resolved columns [Artist]
                              then (Some NoSuchAttribute, fs2)
                              else if \<not> resolved columns
                                          [UserId, Level, SessionId, Location, UserAgent]
                                      \<or> \<not> resolved columns' [Song_id, Artist_id]
                              then (Some UnresolvedColumn, fs2)
                              else
                              (case write_parquet [''year'', ''month'']
                                      (SongplaysTable
                                         (songplays_table (join_order spark) (join_layout spark)
                                            df' song_df))
                                      (output_data @ ''/tbl_songplays.parquet'') fs2 of
                                 Inl e \<Rightarrow> (Some e, fs2)
                               | Inr fs3 \<Rightarrow> (None, fs3))))))))"

section \<open>The entry point: \<^verbatim>\<open>main\<close>\<close>

text \<open>
  The inputs are the files under \<^verbatim>\<open>s3a://udacity-dend/\<close>. The event transform is
  reached only when the catalog transform has returned without a raise.
\<close>

definition main :: "spark_session \<Rightarrow> inputs \<Rightarrow> store \<Rightarrow> error option \<times> store" where
  "main spark input_data fs =
     (let output_data = ''s3a://your-output-bucket/'' in
      case process_song_data spark input_data output_data fs of
        (Some e, fs1) \<Rightarrow> (Some e, fs1)
      | (None, fs1) \<Rightarrow> process_log_data spark input_data output_data fs1)"

section \<open>Inputs used in examples\<close>

text \<open>
  A catalog record and an activity record, with the keys that they carry: six and eight
  keys, or all the keys of the model, those beyond the six and the eight given as
  \<^verbatim>\<open>null\<close>.
\<close>

definition dre_song :: song_record where
  "dre_song =
     \<lparr> song_id = Some ''S1'', title = Some ''T1'', artist_id = Some ''A1'', year = Some 2000,
       duration = Some (1234 / 10), artist_name = Some ''Dr. Dre'', artist_location = None,
       artist_latitude = None, artist_longitude = None \<rparr>"

definition dre_song_columns :: "song_column list" where
  "dre_song_columns = [Artist_name, Song_id, Artist_id, Year, Duration, Title]"

definition catalog_columns :: "song_column list" where
  "catalog_columns = dre_song_columns @ [Artist_location, Artist_latitude, Artist_longitude]"

definition dre_event :: log_record where
  "dre_event =
     \<lparr> artist = Some ''Dr. Dre'', firstName = None, gender = None, lastName = None,
       level = Some ''free'', location = Some ''LA'', page = Some ''NextSong'',
       sessionId = Some 1, ts = Some 1541440796796, userAgent = Some ''x'',
       userId = Some ''U1'' \<rparr>"

definition dre_event_columns :: "log_column list" where
  "dre_event_columns = [Artist, Page, UserId, Ts, SessionId, Level, Location, UserAgent]"

definition activity_columns :: "log_column list" where
  "activity_columns = dre_event_columns @ [FirstName, LastName, Gender]"

definition utc_one_partition :: spark_session where
  "utc_one_partition = \<lparr> time_zone = 0, join_order = [], join_layout = [] \<rparr>"

section \<open>Facts about the engine primitives\<close>

lemma count_list_dropDuplicates:
  "count_list (dropDuplicates xs) x = (if x \<in> set xs then 1 else 0)"
  unfolding dropDuplicates_def
  by (induction xs) auto

lemma set_dropDuplicates: "set (dropDuplicates xs) = set xs"
  by (simp add: dropDuplicates_def)

lemma distinct_dropDuplicates: "distinct (dropDuplicates xs)"
  by (simp add: dropDuplicates_def)

lemma dropDuplicates_idem: "dropDuplicates (dropDuplicates xs) = dropDuplicates xs"
  by (simp add: dropDuplicates_def)

lemma sql_eq_Some: "sql_eq a (Some y) \<longleftrightarrow> a = Some y"
  by (cases a) (auto simp: sql_eq_def)

lemma sql_eq_iff: "sql_eq a b \<longleftrightarrow> a = b \<and> b \<noteq> None"
  by (cases a; cases b) (auto simp: sql_eq_def)

lemma concat_partitions: "concat (partitions layout rows) = rows"
  by (induction layout arbitrary: rows) auto

subsection \<open>The identifier generator\<close>

lemma map_snd_withColumn_id: "map snd (withColumn_id p parts) = concat parts"
  by (induction parts arbitrary: p) (simp_all add: case_prod_unfold comp_def map_snd_enumerate)

lemma map_fst_withColumn_id_Cons:
  "map fst (withColumn_id p (rows # rest)) =
     map (monotonically_increasing_id p) [0..<length rows] @ map fst (withColumn_id (Suc p) rest)"
proof -
  have "map fst (map (\<lambda>(i, r). (monotonically_increasing_id p i, r)) (enumerate 0 rows))
          = map (monotonically_increasing_id p) [0..<length rows]"
    by (rule nth_equalityI) (simp_all add: nth_enumerate_eq)
  then show ?thesis by simp
qed

lemma monotonically_increasing_id_of_nat:
  "monotonically_increasing_id p i = word_of_nat (p * 2 ^ 33 + i)"
  by (simp add: monotonically_increasing_id_def push_bit_eq_mult)

lemma sint_monotonically_increasing_id:
  assumes "p < 2 ^ 30" "i < 2 ^ 33"
  shows "sint (monotonically_increasing_id p i) = int p * 2 ^ 33 + int i"
proof -
  define n where "n = p * 2 ^ 33 + i"
  have n: "int n < 2 ^ 63"
    using assms by (simp add: n_def)
  have "sint (word_of_nat n :: 64 word) = signed_take_bit 63 (int n)"
    by (simp add: signed_of_nat)
  also have "\<dots> = int n"
    by (rule signed_take_bit_int_eq_self) (use n in simp_all)
  finally show ?thesis
    by (simp add: monotonically_increasing_id_of_nat n_def)
qed

text \<open>
  Within the documented limits of the generator the identifiers grow along the rows of a
  partition and from one partition to the next; the invariant carried through the
  partitions is that every identifier of partition \<open>p\<close> or later is at least
  \<open>p * 2 ^ 33\<close>.
\<close>

lemma sorted_ids_withColumn_id:
  assumes "p + length parts \<le> 2 ^ 30" "\<forall>part\<in>set parts. length part \<le> 2 ^ 33"
  shows "sorted_wrt (<) (map sint (map fst (withColumn_id p parts)))
         \<and> (\<forall>w\<in>set (map fst (withColumn_id p parts)). int p * 2 ^ 33 \<le> sint w)"
  using assms
proof (induction parts arbitrary: p)
  case Nil
  show ?case by simp
next
  case (Cons rows rest)
  let ?here = "map (\<lambda>i. int p * 2 ^ 33 + int i) [0..<length rows]"
  let ?later = "map fst (withColumn_id (Suc p) rest)"
  have p: "p < 2 ^ 30" and len: "length rows \<le> 2 ^ 33"
    using Cons.prems by simp_all
  have "Suc p + length rest \<le> 2 ^ 30" "\<forall>part\<in>set rest. length part \<le> 2 ^ 33"
    using Cons.prems by simp_all
  from Cons.IH [OF this]
  have IH1: "sorted_wrt (<) (map sint ?later)"
    and IH2: "\<forall>w\<in>set ?later. int (Suc p) * 2 ^ 33 \<le> sint w"
    by blast+
  have "map sint (map (monotonically_increasing_id p) [0..<length rows]) = ?here"
    using p len by (simp add: sint_monotonically_increasing_id)
  then have ids: "map sint (map fst (withColumn_id p (rows # rest))) = ?here @ map sint ?later"
    by (simp only: map_fst_withColumn_id_Cons map_append)
  have first: "sorted_wrt (<) ?here"
    by (simp add: sorted_wrt_map sorted_wrt_upt)
  have below: "x < int (Suc p) * 2 ^ 33" if "x \<in> set ?here" for x
    using that len by (auto simp: algebra_simps)
  have above: "int (Suc p) * 2 ^ 33 \<le> y" if "y \<in> set (map sint ?later)" for y
    using that IH2 by auto
  have cross: "\<forall>x\<in>set ?here. \<forall>y\<in>set (map sint ?later). x < y"
    using below above by fastforce
  have sorted: "sorted_wrt (<) (map sint (map fst (withColumn_id p (rows # rest))))"
    unfolding ids sorted_wrt_append using first IH1 cross by blast
  have "int p * 2 ^ 33 \<le> z" if "z \<in> set (?here @ map sint ?later)" for z
  proof -
    from that have "z \<in> set ?here \<or> z \<in> set (map sint ?later)" by simp
    then show ?thesis
    proof
      assume "z \<in> set ?here"
      then show ?thesis by auto
    next
      assume "z \<in> set (map sint ?later)"
      from above [OF this] show ?thesis by (simp add: algebra_simps)
    qed
  qed
  then have "\<forall>z\<in>set (map sint (map fst (withColumn_id p (rows # rest)))). int p * 2 ^ 33 \<le> z"
    unfolding ids by blast
  then have "\<forall>w\<in>set (map fst (withColumn_id p (rows # rest))). int p * 2 ^ 33 \<le> sint w"
    unfolding set_map by blast
  with sorted show ?case by blast
qed

subsection \<open>The order of the rows of the join\<close>

lemma mset_engine_order: "mset (engine_order keys rows) = mset rows"
proof -
  let ?ks = "take (length rows) (keys @ replicate (length rows) 0)"
  have len: "length ?ks = length rows"
    by simp
  have "mset (engine_order keys rows) = mset (map snd (zip ?ks rows))"
    unfolding engine_order_def by (simp only: mset_map mset_sort)
  also have "map snd (zip ?ks rows) = rows"
    using len by (rule map_snd_zip)
  finally show ?thesis .
qed

lemma set_engine_order: "set (engine_order keys rows) = set rows"
  using mset_engine_order [of keys rows] by (rule mset_eq_setD)

lemma length_engine_order: "length (engine_order keys rows) = length rows"
  using mset_engine_order [of keys rows] by (rule mset_eq_length)

lemma engine_order_replicate: "engine_order keys (replicate n x) = replicate n x"
  by (rule replicate_eqI) (simp_all add: length_engine_order set_engine_order)

lemma engine_order_single: "engine_order keys [x] = [x]"
  using engine_order_replicate [of keys 1 x] by simp

lemma engine_order_swap: "engine_order [1] [x, y] = [y, x]"
  by (simp add: engine_order_def)

lemma engine_order_no_keys: "engine_order [] rows = rows"
proof -
  let ?zs = "zip (replicate (length rows) (0::nat)) rows"
  have "map fst ?zs = replicate (length rows) 0"
    by simp
  then have "sorted (map fst ?zs)"
    by (simp only: sorted_replicate)
  then have "sort_key fst ?zs = ?zs"
    by (rule sort_key_id_if_sorted)
  then show ?thesis
    by (simp add: engine_order_def)
qed

subsection \<open>The time columns\<close>


lemma get_timestamp_Inr_Some: "get_timestamp x = Inr st \<Longrightarrow> \<exists>ms. x = Some ms"
  by (cases x) (simp_all add: get_timestamp_def)

lemma with_time_columns_Inr:
  "with_time_columns tz df = Inr df' \<longleftrightarrow>
     (\<forall>r\<in>set df. \<exists>st. get_timestamp (ts r) = Inr st) \<and>
     df' = map (\<lambda>r. (r, time_columns tz (projr (get_timestamp (ts r))))) df"
proof (induction df arbitrary: df')
  case Nil
  show ?case by auto
next
  case (Cons r rs)
  show ?case
  proof (cases "get_timestamp (ts r)")
    case (Inl e)
    then show ?thesis by simp
  next
    case (Inr st)
    show ?thesis
    proof (cases "with_time_columns tz rs")
      case (Inl e)
      with Cons.IH Inr show ?thesis by auto
    next
      case (Inr rows)
      with Cons.IH [of rows] \<open>get_timestamp (ts r) = Inr st\<close> show ?thesis by auto
    qed
  qed
qed

lemma with_time_columns_row:
  assumes "with_time_columns tz df = Inr df'" and "(r, t) \<in> set df'"
  shows "r \<in> set df \<and> (\<exists>st. get_timestamp (ts r) = Inr st \<and> t = time_columns tz st)"
  using assms by (auto simp: with_time_columns_Inr)

section \<open>Facts about the two transforms\<close>

text \<open>
  A transform that returns without an error found all its output paths free and added
  exactly its tables to the store; a transform never removes or replaces what the store
  held before.
\<close>

lemma write_parquet_Inr:
  "write_parquet cols rows path fs = Inr fs1 \<longleftrightarrow> fs path = None \<and> fs1 = fs(path \<mapsto> (cols, rows))"
  by (auto simp: write_parquet_def split: option.splits)

lemma write_parquet_map_le: "write_parquet cols rows path fs = Inr fs1 \<Longrightarrow> fs \<subseteq>\<^sub>m fs1"
  by (auto simp: write_parquet_Inr map_le_def)

lemma read_json_Inr:
  "read_json keys files = Inr (columns, rows) \<longleftrightarrow>
     files = Some rows \<and> columns = (if rows = [] then [] else keys)"
  by (auto simp: read_json_def split: option.splits)

lemma process_log_data_ok:
  assumes "process_log_data spark input_data output_data fs = (None, fs')"
  obtains logs df song_df where
    "log_data input_data = Some logs"
    "song_data input_data = Some song_df"
    "with_time_columns (time_zone spark) (next_song logs) = Inr df"
    "fs (output_data @ ''/tbl_users.parquet'') = None"
    "fs (output_data @ ''/tbl_time.parquet'') = None"
    "fs (output_data @ ''/tbl_songplays.parquet'') = None"
    "fs' = fs(output_data @ ''/tbl_users.parquet'' \<mapsto> ([], UsersTable (users_table (next_song logs))),
              output_data @ ''/tbl_time.parquet'' \<mapsto> ([''year'', ''month''], TimeTable (time_table df)),
              output_data @ ''/tbl_songplays.parquet'' \<mapsto>
                ([''year'', ''month''],
                 SongplaysTable (songplays_table (join_order spark) (join_layout spark) df song_df)))"
proof -
  from assms obtain columns logs fs1 df fs2 columns' song_df where steps:
    "read_json (log_columns input_data) (log_data input_data) = Inr (columns, logs)"
    "write_parquet [] (UsersTable (users_table (next_song logs)))
       (output_data @ ''/tbl_users.parquet'') fs = Inr fs1"
    "with_time_columns (time_zone spark) (next_song logs) = Inr df"
    "write_parquet [''year'', ''month''] (TimeTable (time_table df))
       (output_data @ ''/tbl_time.parquet'') fs1 = Inr fs2"
    "read_json (song_columns input_data) (song_data input_data) = Inr (columns', song_df)"
    "write_parquet [''year'', ''month'']
       (SongplaysTable (songplays_table (join_order spark) (join_layout spark) df song_df))
       (output_data @ ''/tbl_songplays.parquet'') fs2 = Inr fs'"
    unfolding process_log_data_def Let_def
    by (auto split: sum.splits prod.splits if_splits)
  from steps show thesis
    by (intro that [of logs song_df df]) (auto simp: write_parquet_Inr read_json_Inr split: if_splits)
qed

lemma process_log_data_map_le:
  assumes "process_log_data spark input_data output_data fs = (err, fs')"
  shows "fs \<subseteq>\<^sub>m fs'"
  using assms
  unfolding process_log_data_def Let_def
  by (auto split: sum.splits prod.splits if_splits dest!: write_parquet_map_le intro: map_le_trans)

lemma process_song_data_ok:
  assumes "process_song_data spark input_data output_data fs = (None, fs')"
  obtains df where
    "song_data input_data = Some df"
    "fs (output_data @ ''/tbl_songs.parquet'') = None"
    "fs (output_data @ ''/tbl_artists.parquet'') = None"
    "fs' = fs(output_data @ ''/tbl_songs.parquet'' \<mapsto> ([''year'', ''artist_id''], SongsTable (songs_table df)),
              output_data @ ''/tbl_artists.parquet'' \<mapsto> ([], ArtistsTable (artists_table df)))"
proof -
  from assms obtain columns df fs1 where steps:
    "read_json (song_columns input_data) (song_data input_data) = Inr (columns, df)"
    "write_parquet [''year'', ''artist_id''] (SongsTable (songs_table df))
       (output_data @ ''/tbl_songs.parquet'') fs = Inr fs1"
    "write_parquet [] (ArtistsTable (artists_table df))
       (output_data @ ''/tbl_artists.parquet'') fs1 = Inr fs'"
    unfolding process_song_data_def
    by (auto split: sum.splits prod.splits if_splits)
  from steps show thesis
    by (intro that [of df]) (auto simp: write_parquet_Inr read_json_Inr split: if_splits)
qed

lemma process_song_data_map_le:
  assumes "process_song_data spark input_data output_data fs = (err, fs')"
  shows "fs \<subseteq>\<^sub>m fs'"
  using assms
  unfolding process_song_data_def
  by (auto split: sum.splits prod.splits if_splits dest!: write_parquet_map_le intro: map_le_trans)

lemma map_le_Some: "fs \<subseteq>\<^sub>m fs' \<Longrightarrow> fs path = Some v \<Longrightarrow> fs' path = Some v"
  by (metis domI map_le_def)

section \<open>Running the transforms\<close>

lemmas columns_defs =
  resolved_def catalog_columns_def dre_song_columns_def activity_columns_def dre_event_columns_def

lemma process_log_data_run:
  assumes "log_data input_data = Some logs"
    and "song_data input_data = Some song_df"
    and "with_time_columns (time_zone spark) (next_song logs) = Inr df"
    and "fs (output_data @ ''/tbl_users.parquet'') = None"
    and "fs (output_data @ ''/tbl_time.parquet'') = None"
    and "fs (output_data @ ''/tbl_songplays.parquet'') = None"
    and "logs \<noteq> []"
    and "song_df \<noteq> []"
    and "resolved (log_columns input_data)
           [Page, UserId, FirstName, LastName, Gender, Level, Ts, Artist, SessionId, Location,
            UserAgent]"
    and "resolved (song_columns input_data) [Artist_name, Song_id, Artist_id]"
  shows "process_log_data spark input_data output_data fs =
     (None, fs(output_data @ ''/tbl_users.parquet'' \<mapsto> ([], UsersTable (users_table (next_song logs))),
              output_data @ ''/tbl_time.parquet'' \<mapsto> ([''year'', ''month''], TimeTable (time_table df)),
              output_data @ ''/tbl_songplays.parquet'' \<mapsto>
                ([''year'', ''month''],
                 SongplaysTable (songplays_table (join_order spark) (join_layout spark) df song_df))))"
proof -
  define fs1 where
    "fs1 = fs(output_data @ ''/tbl_users.parquet'' \<mapsto> ([], UsersTable (users_table (next_song logs))))"
  define fs2 where
    "fs2 = fs1(output_data @ ''/tbl_time.parquet'' \<mapsto> ([''year'', ''month''], TimeTable (time_table df)))"
  have r1: "read_json (log_columns input_data) (log_data input_data) =
      Inr (log_columns input_data, logs)"
    and r2: "read_json (song_columns input_data) (song_data input_data) =
      Inr (song_columns input_data, song_df)"
    using assms(1,2,7,8) by (simp_all add: read_json_def)
  have c1: "resolved (log_columns input_data) [Page]"
    "resolved (log_columns input_data) [UserId, FirstName, LastName, Gender, Level]"
    "resolved (log_columns input_data) [Ts]"
    "resolved (log_columns input_data) [Artist]"
    "resolved (log_columns input_data) [UserId, Level, SessionId, Location, UserAgent]"
    using assms(9) by (simp_all add: resolved_def)
  have c2: "resolved (song_columns input_data) [Artist_name]"
    "resolved (song_columns input_data) [Song_id, Artist_id]"
    using assms(10) by (simp_all add: resolved_def)
  have w1: "write_parquet [] (UsersTable (users_table (next_song logs)))
      (output_data @ ''/tbl_users.parquet'') fs = Inr fs1"
    by (simp add: write_parquet_Inr assms(4) fs1_def)
  have w2: "write_parquet [''year'', ''month''] (TimeTable (time_table df))
      (output_data @ ''/tbl_time.parquet'') fs1 = Inr fs2"
    by (simp add: write_parquet_Inr assms(5) fs1_def fs2_def)
  have w3: "write_parquet [''year'', ''month'']
      (SongplaysTable (songplays_table (join_order spark) (join_layout spark) df song_df))
      (output_data @ ''/tbl_songplays.parquet'') fs2 =
      Inr (fs2(output_data @ ''/tbl_songplays.parquet'' \<mapsto>
        ([''year'', ''month''],
         SongplaysTable (songplays_table (join_order spark) (join_layout spark) df song_df))))"
    by (simp add: write_parquet_Inr assms(6) fs1_def fs2_def)
  have "process_log_data spark input_data output_data fs =
      (None, fs2(output_data @ ''/tbl_songplays.parquet'' \<mapsto>
        ([''year'', ''month''],
         SongplaysTable (songplays_table (join_order spark) (join_layout spark) df song_df))))"
    unfolding process_log_data_def Let_def
    by (simp add: r1 r2 c1 c2 assms(3) w1 w2 w3)
  then show ?thesis
    by (simp only: fs1_def fs2_def)
qed

lemma process_log_data_udf_failure:
  assumes "log_data input_data = Some logs"
    and "fs (output_data @ ''/tbl_users.parquet'') = None"
    and "with_time_columns (time_zone spark) (next_song logs) = Inl e"
    and "logs \<noteq> []"
    and "resolved (log_columns input_data) [Page, UserId, FirstName, LastName, Gender, Level, Ts]"
  shows "process_log_data spark input_data output_data fs =
     (Some e, fs(output_data @ ''/tbl_users.parquet'' \<mapsto>
        ([], UsersTable (users_table (next_song logs)))))"
proof -
  have r1: "read_json (log_columns input_data) (log_data input_data) =
      Inr (log_columns input_data, logs)"
    using assms(1,4) by (simp add: read_json_def)
  have c1: "resolved (log_columns input_data) [Page]"
    "resolved (log_columns input_data) [UserId, FirstName, LastName, Gender, Level]"
    "resolved (log_columns input_data) [Ts]"
    using assms(5) by (simp_all add: resolved_def)
  have w1: "write_parquet [] (UsersTable (users_table (next_song logs)))
      (output_data @ ''/tbl_users.parquet'') fs =
      Inr (fs(output_data @ ''/tbl_users.parquet'' \<mapsto>
        ([], UsersTable (users_table (next_song logs)))))"
    by (simp add: write_parquet_Inr assms(2))
  show ?thesis
    unfolding process_log_data_def Let_def
    by (simp add: r1 c1 w1 assms(3))
qed

text \<open>
  A reference to a column that the log does not have fails the event transform before
  anything is written.
\<close>

lemma process_log_data_unresolved:
  assumes "log_data input_data = Some logs"
    and "\<not> resolved (log_columns input_data) [Page, UserId, FirstName, LastName, Gender, Level]"
  shows "process_log_data spark input_data output_data fs = (Some UnresolvedColumn, fs)"
proof -
  obtain columns where r1: "read_json (log_columns input_data) (log_data input_data) =
      Inr (columns, logs)" and sub: "set columns \<subseteq> set (log_columns input_data)"
    using assms(1) by (simp add: read_json_def)
  from assms(2) sub have "\<not> resolved columns [Page]
      \<or> \<not> resolved columns [UserId, FirstName, LastName, Gender, Level]"
    by (auto simp: resolved_def)
  then show ?thesis
    unfolding process_log_data_def Let_def
    by (auto simp: r1)
qed
section \<open>The songs table\<close>

text \<open>
  C5. Whenever the catalog transform completes, the songs table it wrote holds, for every
  catalog record of the input, exactly one row with that record's values of
  (song_id, title, artist_id, year, duration), however many catalog records share them;
  removing duplicates from the table once more changes nothing.
\<close>

theorem songs_table_one_row_per_tuple:
  assumes "process_song_data spark input_data output_data fs = (None, fs')"
    and "song_data input_data = Some df"
    and "r \<in> set df"
  shows "\<exists>rows. fs' (output_data @ ''/tbl_songs.parquet'') =
                  Some ([''year'', ''artist_id''], SongsTable rows)
           \<and> count_list rows \<lparr> s_song_id = song_id r, s_title = title r,
                s_artist_id = artist_id r, s_year = year r, s_duration = duration r \<rparr> = 1
           \<and> dropDuplicates rows = rows"
proof -
  from assms(1) obtain df' where df': "song_data input_data = Some df'"
    and fs': "fs' = fs(output_data @ ''/tbl_songs.parquet'' \<mapsto> ([''year'', ''artist_id''], SongsTable (songs_table df')),
              output_data @ ''/tbl_artists.parquet'' \<mapsto> ([], ArtistsTable (artists_table df')))"
    by (rule process_song_data_ok)
  from df' assms(2) have [simp]: "df' = df" by simp
  have "fs' (output_data @ ''/tbl_songs.parquet'') =
      Some ([''year'', ''artist_id''], SongsTable (songs_table df))"
    by (simp add: fs')
  moreover have "count_list (songs_table df) \<lparr> s_song_id = song_id r, s_title = title r,
                s_artist_id = artist_id r, s_year = year r, s_duration = duration r \<rparr> = 1"
    using assms(3) by (simp add: songs_table_def count_list_dropDuplicates image_iff)
      (metis)
  moreover have "dropDuplicates (songs_table df) = songs_table df"
    by (simp add: songs_table_def dropDuplicates_idem)
  ultimately show ?thesis by blast
qed

theorem songs_table_one_row_per_tuple_witness:
  "fst (process_song_data utc_one_partition
          \<lparr> song_data = Some [dre_song, dre_song], song_columns = catalog_columns,
            log_data = None,
            log_columns = [] \<rparr> ''out'' Map.empty) = None
   \<and> (\<exists>rows. snd (process_song_data utc_one_partition
          \<lparr> song_data = Some [dre_song, dre_song], song_columns = catalog_columns,
            log_data = None,
            log_columns = [] \<rparr> ''out'' Map.empty)
            ''out/tbl_songs.parquet'' = Some ([''year'', ''artist_id''], SongsTable rows)
        \<and> count_list rows \<lparr> s_song_id = Some ''S1'', s_title = Some ''T1'',
             s_artist_id = Some ''A1'', s_year = Some 2000, s_duration = Some (1234 / 10) \<rparr> = 1
        \<and> dropDuplicates rows = rows)"
proof -
  let ?input = "\<lparr> song_data = Some [dre_song, dre_song], song_columns = catalog_columns,
                  log_data = None,
                  log_columns = [] \<rparr>"
  let ?run = "process_song_data utc_one_partition ?input ''out'' Map.empty"
  have ok: "fst ?run = None"
    by (simp add: process_song_data_def read_json_def write_parquet_def columns_defs)
  then have run: "?run = (None, snd ?run)"
    by (simp add: prod_eq_iff)
  from songs_table_one_row_per_tuple [OF run, of "[dre_song, dre_song]" dre_song] ok
  show ?thesis by (simp add: dre_song_def)
qed

section \<open>The start time\<close>

text \<open>
  The activity record of the examples was logged at 2018-11-05 17:59:56.796 UTC, day
  number 17840. Under any zone offset of at most eighteen hours its local date is one of
  the 4th, 5th and 6th of November 2018.
\<close>

lemma civil_from_days_example:
  "civil_from_days 17839 = (2018, 11, 4)"
  "civil_from_days 17840 = (2018, 11, 5)"
  "civil_from_days 17841 = (2018, 11, 6)"
  unfolding civil_from_days_def by (simp_all only: Let_def) simp_all



lemma get_timestamp_dre: "get_timestamp (ts dre_event) = Inr 1541440796796000"
  by (simp add: dre_event_def get_timestamp_def)





section \<open>The weekday column\<close>

text \<open>
  The 4th of November 2018 was a Sunday. The weekday number of a timestamp is one more
  than the number of days since the latest Sunday.
\<close>

lemma days_from_civil_example: "days_from_civil 2018 11 4 = 17839"
  unfolding days_from_civil_def by (simp only: Let_def) simp

lemma dayofweek_since_sunday:
  "dayofweek tz st = (local_days tz st - days_from_civil 2018 11 4) mod 7 + 1"
proof -
  define n where "n = local_days tz st"
  have "n - 17839 = (n + 4) + (- 2549) * 7" by simp
  then have "(n - 17839) mod 7 = (n + 4) mod 7" by (simp only: mod_mult_self1)
  then show ?thesis
    by (simp only: dayofweek_def days_from_civil_example n_def)
qed

text \<open>
  C10. For every row that the event transform derives from an activity record, whatever
  its start time and the zone, the weekday column is an integer from 1 to 7, one more than
  the number of days since the latest Sunday: 1 on a Sunday and 7 on a Saturday.
\<close>

theorem weekday_sunday_is_one:
  assumes "with_time_columns tz df = Inr df'" and "(r, t) \<in> set df'"
  shows "1 \<le> t_weekday t \<and> t_weekday t \<le> 7
         \<and> t_weekday t = (local_days tz (t_start_time t) - days_from_civil 2018 11 4) mod 7 + 1
         \<and> (t_weekday t = 1 \<longleftrightarrow>
              (local_days tz (t_start_time t) - days_from_civil 2018 11 4) mod 7 = 0)
         \<and> (t_weekday t = 7 \<longleftrightarrow>
              (local_days tz (t_start_time t) - days_from_civil 2018 11 4) mod 7 = 6)"
proof -
  from with_time_columns_row [OF assms] obtain st where t: "t = time_columns tz st"
    by blast
  define k where "k = (local_days tz st - days_from_civil 2018 11 4) mod 7"
  have st: "t_start_time t = st"
    by (simp add: t time_columns_def)
  have "t_weekday t = dayofweek tz st"
    by (simp add: t time_columns_def)
  then have wd: "t_weekday t = k + 1"
    by (simp only: dayofweek_since_sunday k_def)
  have "0 \<le> k" "k < 7"
    by (simp_all add: k_def)
  then have "1 \<le> k + 1 \<and> k + 1 \<le> 7 \<and> (k + 1 = 1 \<longleftrightarrow> k = 0) \<and> (k + 1 = 7 \<longleftrightarrow> k = 6)"
    by simp
  then show ?thesis
    unfolding wd st k_def [symmetric] by simp
qed

theorem weekday_sunday_is_one_witness:
  "with_time_columns 0 [dre_event\<lparr>ts := Some 1541289600000\<rparr>] =
     Inr [(dre_event\<lparr>ts := Some 1541289600000\<rparr>, time_columns 0 1541289600000000)]
   \<and> civil_from_days (local_days 0 1541289600000000) = (2018, 11, 4)
   \<and> t_weekday (time_columns 0 1541289600000000) = 1
   \<and> 1 \<le> t_weekday (time_columns 0 1541289600000000)
   \<and> t_weekday (time_columns 0 1541289600000000) \<le> 7"
proof -
  let ?e = "dre_event\<lparr>ts := Some 1541289600000\<rparr>"
  let ?t = "time_columns 0 1541289600000000"
  have run: "with_time_columns 0 [?e] = Inr [(?e, ?t)]"
    by (simp add: get_timestamp_def)
  have row: "(?e, ?t) \<in> set [(?e, ?t)]"
    by simp
  have day: "local_days 0 1541289600000000 = 17839"
    by (simp add: local_days_def local_seconds_def)
  have st: "t_start_time ?t = 1541289600000000"
    by (simp add: time_columns_def)
  have sunday: "(local_days 0 (t_start_time ?t) - days_from_civil 2018 11 4) mod 7 = 0"
    by (simp only: st day days_from_civil_example) simp
  note facts = weekday_sunday_is_one [OF run row]
  from facts have lo: "1 \<le> t_weekday ?t"
    by (elim conjE)
  from facts have hi: "t_weekday ?t \<le> 7"
    by (elim conjE)
  from facts have
    "t_weekday ?t = 1 \<longleftrightarrow> (local_days 0 (t_start_time ?t) - days_from_civil 2018 11 4) mod 7 = 0"
    by (elim conjE)
  with sunday have "t_weekday ?t = 1"
    by (simp only: simp_thms)
  note this lo hi
  moreover have "civil_from_days (local_days 0 1541289600000000) = (2018, 11, 4)"
    by (simp only: day civil_from_days_example)
  ultimately show ?thesis using run by blast
qed

section \<open>The time table\<close>

lemma t_start_time_time_columns: "t_start_time (time_columns tz st) = st"
  by (simp add: time_columns_def)

lemma time_columns_eq_iff: "time_columns tz a = time_columns tz b \<longleftrightarrow> a = b"
  by (metis t_start_time_time_columns)

lemma distinct_start_time_time_table:
  assumes "with_time_columns tz df = Inr df'"
  shows "distinct (map t_start_time (time_table df'))"
proof -
  from assms have df': "df' = map (\<lambda>r. (r, time_columns tz (projr (get_timestamp (ts r))))) df"
    by (simp add: with_time_columns_Inr)
  have "inj_on t_start_time (set (map snd df'))"
    by (auto simp: df' inj_on_def t_start_time_time_columns)
  then show ?thesis
    by (simp add: time_table_def dropDuplicates_def distinct_map)
qed

text \<open>
  C7. Whenever the event transform completes, the time table it wrote has no two rows with
  the same start time: the other six columns are functions of the start time, so rows that
  agree on it agree everywhere and the removal of duplicates keeps one of them.
\<close>

theorem time_table_start_time_unique:
  assumes "process_log_data spark input_data output_data fs = (None, fs')"
  shows "\<exists>rows. fs' (output_data @ ''/tbl_time.parquet'') =
                  Some ([''year'', ''month''], TimeTable rows)
           \<and> distinct (map t_start_time rows)
           \<and> (\<forall>i<length rows. \<forall>j<length rows. i \<noteq> j \<longrightarrow>
                 t_start_time (rows ! i) \<noteq> t_start_time (rows ! j))"
proof -
  from assms obtain logs df where
    df: "with_time_columns (time_zone spark) (next_song logs) = Inr df"
    and written: "fs' (output_data @ ''/tbl_time.parquet'') =
      Some ([''year'', ''month''], TimeTable (time_table df))"
    by (rule process_log_data_ok) simp
  have d: "distinct (map t_start_time (time_table df))"
    using df by (rule distinct_start_time_time_table)
  have "t_start_time (time_table df ! i) \<noteq> t_start_time (time_table df ! j)"
    if "i < length (time_table df)" "j < length (time_table df)" "i \<noteq> j" for i j
    using d that by (simp add: distinct_conv_nth)
  with d written show ?thesis by blast
qed

theorem time_table_start_time_unique_witness:
  "fst (process_log_data utc_one_partition
         \<lparr> song_data = Some [dre_song],
           song_columns = catalog_columns,
           log_data = Some [dre_event, dre_event, dre_event\<lparr>ts := Some 1541289600000\<rparr>],
           log_columns = activity_columns \<rparr>
         ''out'' Map.empty) = None
   \<and> (\<exists>rows. snd (process_log_data utc_one_partition
         \<lparr> song_data = Some [dre_song],
           song_columns = catalog_columns,
           log_data = Some [dre_event, dre_event, dre_event\<lparr>ts := Some 1541289600000\<rparr>],
           log_columns = activity_columns \<rparr>
         ''out'' Map.empty) ''out/tbl_time.parquet'' = Some ([''year'', ''month''], TimeTable rows)
        \<and> length rows = 2
        \<and> distinct (map t_start_time rows))"
proof -
  let ?logs = "[dre_event, dre_event, dre_event\<lparr>ts := Some 1541289600000\<rparr>]"
  let ?input = "\<lparr> song_data = Some [dre_song], song_columns = catalog_columns,
                  log_data = Some ?logs,
                  log_columns = activity_columns \<rparr>"
  let ?df = "[(dre_event, time_columns 0 1541440796796000),
              (dre_event, time_columns 0 1541440796796000),
              (dre_event\<lparr>ts := Some 1541289600000\<rparr>, time_columns 0 1541289600000000)]"
  have df: "with_time_columns (time_zone utc_one_partition) (next_song ?logs) = Inr ?df"
    by (simp add: utc_one_partition_def next_song_def sql_eq_def dre_event_def get_timestamp_def)
  have run: "process_log_data utc_one_partition ?input ''out'' Map.empty =
     (None, Map.empty(''out'' @ ''/tbl_users.parquet'' \<mapsto> ([], UsersTable (users_table (next_song ?logs))),
              ''out'' @ ''/tbl_time.parquet'' \<mapsto> ([''year'', ''month''], TimeTable (time_table ?df)),
              ''out'' @ ''/tbl_songplays.parquet'' \<mapsto>
                ([''year'', ''month''],
                 SongplaysTable (songplays_table (join_order utc_one_partition)
                     (join_layout utc_one_partition) ?df [dre_song]))))"
    by (rule process_log_data_run [OF _ _ df]) (simp_all add: columns_defs)
  from time_table_start_time_unique [OF run] obtain rows where
    rows: "(Map.empty(''out'' @ ''/tbl_users.parquet'' \<mapsto> ([], UsersTable (users_table (next_song ?logs))),
              ''out'' @ ''/tbl_time.parquet'' \<mapsto> ([''year'', ''month''], TimeTable (time_table ?df)),
              ''out'' @ ''/tbl_songplays.parquet'' \<mapsto>
                ([''year'', ''month''],
                 SongplaysTable (songplays_table (join_order utc_one_partition)
                     (join_layout utc_one_partition) ?df [dre_song]))))
            (''out'' @ ''/tbl_time.parquet'') = Some ([''year'', ''month''], TimeTable rows)"
    and d: "distinct (map t_start_time rows)"
    by blast
  from rows have "rows = time_table ?df"
    by simp
  then have len: "length rows = 2"
    by (simp add: time_table_def dropDuplicates_def time_columns_eq_iff)
  from rows have "snd (process_log_data utc_one_partition ?input ''out'' Map.empty)
      ''out/tbl_time.parquet'' = Some ([''year'', ''month''], TimeTable rows)"
    unfolding run by simp
  moreover have "fst (process_log_data utc_one_partition ?input ''out'' Map.empty) = None"
    unfolding run by simp
  ultimately show ?thesis using len d by blast
qed

section \<open>The users table\<close>

lemma next_song_filter: "next_song df = filter (\<lambda>r. page r = Some ''NextSong'') df"
  by (simp add: next_song_def sql_eq_Some)

lemma set_next_song: "set (next_song df) = {r \<in> set df. page r = Some ''NextSong''}"
  by (simp add: next_song_filter)

lemma distinct_map_dropDuplicates:
  "distinct (map f (dropDuplicates xs)) \<longleftrightarrow> inj_on f (set xs)"
  by (simp add: dropDuplicates_def distinct_map)

text \<open>
  C3, as amended. Whenever the event transform completes, the users table it wrote has no
  two rows that agree on all five columns (user_id, first_name, last_name, gender, level).
  Its user_id values are pairwise distinct exactly when no two activity records with page
  \<open>NextSong\<close> share a userId and differ in first name, last name, gender or level.
\<close>

theorem users_table_rows_unique:
  assumes "process_log_data spark input_data output_data fs = (None, fs')"
    and "log_data input_data = Some logs"
  shows "\<exists>rows. fs' (output_data @ ''/tbl_users.parquet'') = Some ([], UsersTable rows)
           \<and> distinct rows
           \<and> (distinct (map u_user_id rows) \<longleftrightarrow>
                (\<forall>r\<in>set logs. \<forall>r'\<in>set logs.
                    page r = Some ''NextSong'' \<and> page r' = Some ''NextSong''
                      \<and> userId r = userId r' \<longrightarrow>
                    firstName r = firstName r' \<and> lastName r = lastName r'
                      \<and> gender r = gender r' \<and> level r = level r'))"
proof -
  let ?proj = "\<lambda>r. \<lparr> u_user_id = userId r, u_first_name = firstName r,
                   u_last_name = lastName r, u_gender = gender r, u_level = level r \<rparr>"
  from assms(1) obtain logs' where "log_data input_data = Some logs'"
    and "fs' (output_data @ ''/tbl_users.parquet'') =
      Some ([], UsersTable (users_table (next_song logs')))"
    by (rule process_log_data_ok) simp
  with assms(2) have written: "fs' (output_data @ ''/tbl_users.parquet'') =
      Some ([], UsersTable (users_table (next_song logs)))"
    by simp
  have rows: "users_table (next_song logs) = dropDuplicates (map ?proj (next_song logs))"
    by (simp add: users_table_def)
  have d: "distinct (users_table (next_song logs))"
    unfolding rows by (rule distinct_dropDuplicates)
  have "distinct (map u_user_id (users_table (next_song logs))) \<longleftrightarrow>
      inj_on u_user_id (set (map ?proj (next_song logs)))"
    unfolding rows by (rule distinct_map_dropDuplicates)
  also have "\<dots> \<longleftrightarrow> (\<forall>r\<in>set (next_song logs). \<forall>r'\<in>set (next_song logs).
      userId r = userId r' \<longrightarrow> ?proj r = ?proj r')"
    by (auto simp: inj_on_def)
  also have "\<dots> \<longleftrightarrow> (\<forall>r\<in>set logs. \<forall>r'\<in>set logs.
                    page r = Some ''NextSong'' \<and> page r' = Some ''NextSong''
                      \<and> userId r = userId r' \<longrightarrow>
                    firstName r = firstName r' \<and> lastName r = lastName r'
                      \<and> gender r = gender r' \<and> level r = level r')"
    by (auto simp: set_next_song)
  finally show ?thesis
    using written d by blast
qed

theorem users_table_rows_unique_witness:
  "fst (process_log_data utc_one_partition
         \<lparr> song_data = Some [dre_song],
           song_columns = catalog_columns,
           log_data = Some [dre_event, dre_event, dre_event\<lparr>userId := Some ''U2''\<rparr>],
           log_columns = activity_columns \<rparr>
         ''out'' Map.empty) = None
   \<and> (\<exists>rows. snd (process_log_data utc_one_partition
         \<lparr> song_data = Some [dre_song],
           song_columns = catalog_columns,
           log_data = Some [dre_event, dre_event, dre_event\<lparr>userId := Some ''U2''\<rparr>],
           log_columns = activity_columns \<rparr>
         ''out'' Map.empty) ''out/tbl_users.parquet'' = Some ([], UsersTable rows)
        \<and> length rows = 2
        \<and> distinct rows
        \<and> distinct (map u_user_id rows))"
proof -
  let ?logs = "[dre_event, dre_event, dre_event\<lparr>userId := Some ''U2''\<rparr>]"
  let ?input = "\<lparr> song_data = Some [dre_song], song_columns = catalog_columns,
                  log_data = Some ?logs,
                  log_columns = activity_columns \<rparr>"
  let ?df = "[(dre_event, time_columns 0 1541440796796000),
              (dre_event, time_columns 0 1541440796796000),
              (dre_event\<lparr>userId := Some ''U2''\<rparr>, time_columns 0 1541440796796000)]"
  let ?fs = "Map.empty(''out'' @ ''/tbl_users.parquet'' \<mapsto> ([], UsersTable (users_table (next_song ?logs))),
              ''out'' @ ''/tbl_time.parquet'' \<mapsto> ([''year'', ''month''], TimeTable (time_table ?df)),
              ''out'' @ ''/tbl_songplays.parquet'' \<mapsto>
                ([''year'', ''month''],
                 SongplaysTable (songplays_table (join_order utc_one_partition)
                     (join_layout utc_one_partition) ?df [dre_song])))"
  have df: "with_time_columns (time_zone utc_one_partition) (next_song ?logs) = Inr ?df"
    by (simp add: utc_one_partition_def next_song_def sql_eq_def dre_event_def get_timestamp_def)
  have run: "process_log_data utc_one_partition ?input ''out'' Map.empty = (None, ?fs)"
    by (rule process_log_data_run [OF _ _ df]) (simp_all add: columns_defs)
  have logs: "log_data ?input = Some ?logs"
    by simp
  have same: "\<forall>r\<in>set ?logs. \<forall>r'\<in>set ?logs.
      page r = Some ''NextSong'' \<and> page r' = Some ''NextSong'' \<and> userId r = userId r' \<longrightarrow>
      firstName r = firstName r' \<and> lastName r = lastName r'
        \<and> gender r = gender r' \<and> level r = level r'"
    by (simp add: dre_event_def)
  from users_table_rows_unique [OF run logs] obtain rows where
    rows: "?fs (''out'' @ ''/tbl_users.parquet'') = Some ([], UsersTable rows)"
    and d: "distinct rows"
    and iff: "distinct (map u_user_id rows) \<longleftrightarrow>
      (\<forall>r\<in>set ?logs. \<forall>r'\<in>set ?logs.
      page r = Some ''NextSong'' \<and> page r' = Some ''NextSong'' \<and> userId r = userId r' \<longrightarrow>
      firstName r = firstName r' \<and> lastName r = lastName r'
        \<and> gender r = gender r' \<and> level r = level r')"
    by blast
  from iff same have ids: "distinct (map u_user_id rows)"
    by (simp only: simp_thms)
  from rows have "rows = users_table (next_song ?logs)"
    by simp
  then have len: "length rows = 2"
    by (simp add: users_table_def dropDuplicates_def next_song_def sql_eq_def dre_event_def)
  from rows have "snd (process_log_data utc_one_partition ?input ''out'' Map.empty)
      ''out/tbl_users.parquet'' = Some ([], UsersTable rows)"
    unfolding run by simp
  moreover have "fst (process_log_data utc_one_partition ?input ''out'' Map.empty) = None"
    unfolding run by simp
  ultimately show ?thesis using len d ids by blast
qed

text \<open>
  The claim as stated fails: two activity records of the same user, one with level
  \<open>free\<close> and one with level \<open>paid\<close>, give two rows with the same user_id.
\<close>

theorem users_table_user_id_counterexample:
  "fst (process_log_data utc_one_partition
         \<lparr> song_data = Some [dre_song],
           song_columns = catalog_columns,
           log_data = Some [dre_event, dre_event\<lparr>level := Some ''paid''\<rparr>],
           log_columns = activity_columns \<rparr>
         ''out'' Map.empty) = None
   \<and> snd (process_log_data utc_one_partition
         \<lparr> song_data = Some [dre_song],
           song_columns = catalog_columns,
           log_data = Some [dre_event, dre_event\<lparr>level := Some ''paid''\<rparr>],
           log_columns = activity_columns \<rparr>
         ''out'' Map.empty) ''out/tbl_users.parquet'' =
       Some ([], UsersTable
         [\<lparr> u_user_id = Some ''U1'', u_first_name = None, u_last_name = None,
             u_gender = None, u_level = Some ''free'' \<rparr>,
          \<lparr> u_user_id = Some ''U1'', u_first_name = None, u_last_name = None,
             u_gender = None, u_level = Some ''paid'' \<rparr>])"
proof -
  let ?logs = "[dre_event, dre_event\<lparr>level := Some ''paid''\<rparr>]"
  let ?input = "\<lparr> song_data = Some [dre_song], song_columns = catalog_columns,
                  log_data = Some ?logs,
                  log_columns = activity_columns \<rparr>"
  let ?df = "[(dre_event, time_columns 0 1541440796796000),
              (dre_event\<lparr>level := Some ''paid''\<rparr>, time_columns 0 1541440796796000)]"
  have df: "with_time_columns (time_zone utc_one_partition) (next_song ?logs) = Inr ?df"
    by (simp add: utc_one_partition_def next_song_def sql_eq_def dre_event_def get_timestamp_def)
  have run: "process_log_data utc_one_partition ?input ''out'' Map.empty =
     (None, Map.empty(''out'' @ ''/tbl_users.parquet'' \<mapsto> ([], UsersTable (users_table (next_song ?logs))),
              ''out'' @ ''/tbl_time.parquet'' \<mapsto> ([''year'', ''month''], TimeTable (time_table ?df)),
              ''out'' @ ''/tbl_songplays.parquet'' \<mapsto>
                ([''year'', ''month''],
                 SongplaysTable (songplays_table (join_order utc_one_partition)
                     (join_layout utc_one_partition) ?df [dre_song]))))"
    by (rule process_log_data_run [OF _ _ df]) (simp_all add: columns_defs)
  have users: "users_table (next_song ?logs) =
         [\<lparr> u_user_id = Some ''U1'', u_first_name = None, u_last_name = None,
             u_gender = None, u_level = Some ''free'' \<rparr>,
          \<lparr> u_user_id = Some ''U1'', u_first_name = None, u_last_name = None,
             u_gender = None, u_level = Some ''paid'' \<rparr>]"
    by (simp add: users_table_def dropDuplicates_def next_song_def sql_eq_def dre_event_def)
  show ?thesis
    unfolding run by (simp add: users)
qed


section \<open>The filter on the page column\<close>

lemma songplays_table_provenance:
  assumes "p \<in> set (songplays_table order layout df song_df)"
  shows "\<exists>l t s. (l, t) \<in> set df \<and> s \<in> set song_df \<and> sql_eq (artist_name s) (artist l)
           \<and> p = songplays_row_of (songplay_id p, (l, t), s)"
proof -
  let ?joined = "engine_order order (join_inner df song_df)"
  from assms obtain x where x: "x \<in> set (withColumn_id 0 (partitions layout ?joined))"
    and p: "p = songplays_row_of x"
    by (auto simp: songplays_table_def)
  obtain sid l t s where xeq: "x = (sid, (l, t), s)"
    by (metis prod.exhaust)
  from x have "snd x \<in> set (map snd (withColumn_id 0 (partitions layout ?joined)))"
    by (metis imageI set_map)
  then have "((l, t), s) \<in> set (join_inner df song_df)"
    by (simp add: map_snd_withColumn_id concat_partitions xeq set_engine_order)
  then have "(l, t) \<in> set df" "s \<in> set song_df" "sql_eq (artist_name s) (artist l)"
    by (auto simp: join_inner_def)
  moreover have "songplay_id p = sid"
    by (simp add: p xeq songplays_row_of_def)
  ultimately show ?thesis
    using p xeq by blast
qed

lemma length_songplays_table:
  "length (songplays_table order layout df song_df) = length (join_inner df song_df)"
proof -
  let ?joined = "engine_order order (join_inner df song_df)"
  have "length (withColumn_id 0 (partitions layout ?joined)) =
      length (map snd (withColumn_id 0 (partitions layout ?joined)))"
    by simp
  also have "\<dots> = length (join_inner df song_df)"
    by (simp only: map_snd_withColumn_id concat_partitions length_engine_order)
  finally show ?thesis
    by (simp add: songplays_table_def)
qed

lemma songplays_table_Nil: "songplays_table order layout [] song_df = []"
  using length_songplays_table [of order layout "[]" song_df] by (simp add: join_inner_def)

text \<open>
  C4. Whenever the event transform completes, every row of the users table, of the time
  table and of the songplays table is derived from an activity record of the input whose
  page is \<open>NextSong\<close> (for a songplays row: from such a record joined with a catalog
  record of the same artist name). The users table and the time table have at most as
  many rows as there are such records, and a log without any record of page
  \<open>NextSong\<close> leaves all three tables empty: a record of another page, or without a
  page, contributes no row to any table, directly or through the join.
\<close>

theorem non_next_song_records_excluded:
  assumes "process_log_data spark input_data output_data fs = (None, fs')"
    and "log_data input_data = Some logs"
  shows "\<exists>us tt sp.
           fs' (output_data @ ''/tbl_users.parquet'') = Some ([], UsersTable us)
         \<and> fs' (output_data @ ''/tbl_time.parquet'') = Some ([''year'', ''month''], TimeTable tt)
         \<and> fs' (output_data @ ''/tbl_songplays.parquet'') =
             Some ([''year'', ''month''], SongplaysTable sp)
         \<and> (\<forall>u\<in>set us. \<exists>r\<in>set logs. page r = Some ''NextSong''
               \<and> u = \<lparr> u_user_id = userId r, u_first_name = firstName r,
                       u_last_name = lastName r, u_gender = gender r, u_level = level r \<rparr>)
         \<and> (\<forall>t\<in>set tt. \<exists>r\<in>set logs. \<exists>ms st. page r = Some ''NextSong'' \<and> ts r = Some ms
               \<and> get_timestamp (ts r) = Inr st \<and> t = time_columns (time_zone spark) st)
         \<and> (\<forall>p\<in>set sp. \<exists>r\<in>set logs. \<exists>ms st s. page r = Some ''NextSong'' \<and> ts r = Some ms
               \<and> get_timestamp (ts r) = Inr st
               \<and> artist_name s = artist r \<and> artist r \<noteq> None
               \<and> p = songplays_row_of (songplay_id p, (r, time_columns (time_zone spark) st), s))
         \<and> length us \<le> length (filter (\<lambda>r. page r = Some ''NextSong'') logs)
         \<and> length tt \<le> length (filter (\<lambda>r. page r = Some ''NextSong'') logs)
         \<and> ((\<forall>r\<in>set logs. page r \<noteq> Some ''NextSong'') \<longrightarrow> us = [] \<and> tt = [] \<and> sp = [])"
proof -
  let ?tz = "time_zone spark"
  let ?F = "next_song logs"
  from assms(1) obtain logs' df song_df where "log_data input_data = Some logs'"
    and df0: "with_time_columns ?tz (next_song logs') = Inr df"
    and fs'0: "fs' = fs(output_data @ ''/tbl_users.parquet'' \<mapsto> ([], UsersTable (users_table (next_song logs'))),
              output_data @ ''/tbl_time.parquet'' \<mapsto> ([''year'', ''month''], TimeTable (time_table df)),
              output_data @ ''/tbl_songplays.parquet'' \<mapsto>
                ([''year'', ''month''],
                 SongplaysTable (songplays_table (join_order spark) (join_layout spark) df song_df)))"
    by (rule process_log_data_ok)
  with assms(2) have [simp]: "logs' = logs" by simp
  let ?sp = "songplays_table (join_order spark) (join_layout spark) df song_df"
  have row: "\<exists>ms st. page r = Some ''NextSong'' \<and> r \<in> set logs \<and> ts r = Some ms
      \<and> get_timestamp (ts r) = Inr st \<and> t = time_columns ?tz st" if "(r, t) \<in> set df" for r t
  proof -
    from df0 that have "r \<in> set ?F"
      and "\<exists>st. get_timestamp (ts r) = Inr st \<and> t = time_columns ?tz st"
      using with_time_columns_row [of ?tz ?F df r t] by simp_all
    then obtain st where st: "get_timestamp (ts r) = Inr st" "t = time_columns ?tz st"
      and r: "r \<in> set logs" "page r = Some ''NextSong''"
      by (auto simp: set_next_song)
    from get_timestamp_Inr_Some [OF st(1)] obtain ms where "ts r = Some ms"
      by blast
    with st r show ?thesis
      by blast
  qed
  have len_df: "length df = length ?F"
    using df0 by (simp add: with_time_columns_Inr)
  have users: "fs' (output_data @ ''/tbl_users.parquet'') = Some ([], UsersTable (users_table ?F))"
    and time: "fs' (output_data @ ''/tbl_time.parquet'') =
      Some ([''year'', ''month''], TimeTable (time_table df))"
    and plays: "fs' (output_data @ ''/tbl_songplays.parquet'') =
      Some ([''year'', ''month''], SongplaysTable ?sp)"
    by (simp_all add: fs'0)
  have u: "\<forall>u\<in>set (users_table ?F). \<exists>r\<in>set logs. page r = Some ''NextSong''
                    \<and> u = \<lparr> u_user_id = userId r, u_first_name = firstName r,
                            u_last_name = lastName r, u_gender = gender r, u_level = level r \<rparr>"
    by (auto simp: users_table_def set_dropDuplicates set_next_song)
  have t: "\<forall>t\<in>set (time_table df). \<exists>r\<in>set logs. \<exists>ms st. page r = Some ''NextSong''
      \<and> ts r = Some ms \<and> get_timestamp (ts r) = Inr st \<and> t = time_columns ?tz st"
  proof
    fix t assume "t \<in> set (time_table df)"
    then obtain r where "(r, t) \<in> set df"
      by (auto simp: time_table_def set_dropDuplicates)
    from row [OF this] show "\<exists>r\<in>set logs. \<exists>ms st. page r = Some ''NextSong''
        \<and> ts r = Some ms \<and> get_timestamp (ts r) = Inr st \<and> t = time_columns ?tz st"
      by blast
  qed
  have p: "\<forall>p\<in>set ?sp. \<exists>r\<in>set logs. \<exists>ms st s. page r = Some ''NextSong'' \<and> ts r = Some ms
               \<and> get_timestamp (ts r) = Inr st
               \<and> artist_name s = artist r \<and> artist r \<noteq> None
               \<and> p = songplays_row_of (songplay_id p, (r, time_columns ?tz st), s)"
  proof
    fix p assume "p \<in> set ?sp"
    from songplays_table_provenance [OF this] obtain l t s where
      lt: "(l, t) \<in> set df" and eq: "sql_eq (artist_name s) (artist l)"
      and p: "p = songplays_row_of (songplay_id p, (l, t), s)"
      by blast
    from row [OF lt] obtain ms st where "page l = Some ''NextSong''" "l \<in> set logs"
      "ts l = Some ms" "get_timestamp (ts l) = Inr st" "t = time_columns ?tz st"
      by blast
    moreover from eq have "artist_name s = artist l" "artist l \<noteq> None"
      by (simp_all add: sql_eq_iff)
    ultimately show "\<exists>r\<in>set logs. \<exists>ms st s. page r = Some ''NextSong'' \<and> ts r = Some ms
               \<and> get_timestamp (ts r) = Inr st
               \<and> artist_name s = artist r \<and> artist r \<noteq> None
               \<and> p = songplays_row_of (songplay_id p, (r, time_columns ?tz st), s)"
      using p by blast
  qed
  have lu: "length (users_table ?F) \<le> length (filter (\<lambda>r. page r = Some ''NextSong'') logs)"
    unfolding users_table_def dropDuplicates_def next_song_filter
    by (rule order_trans [OF length_remdups_leq]) simp
  have lt: "length (time_table df) \<le> length (filter (\<lambda>r. page r = Some ''NextSong'') logs)"
    unfolding time_table_def dropDuplicates_def
    by (rule order_trans [OF length_remdups_leq]) (simp add: len_df next_song_filter)
  have none: "(\<forall>r\<in>set logs. page r \<noteq> Some ''NextSong'') \<longrightarrow>
      users_table ?F = [] \<and> time_table df = [] \<and> ?sp = []"
  proof
    assume "\<forall>r\<in>set logs. page r \<noteq> Some ''NextSong''"
    then have F: "?F = []"
      by (simp add: next_song_filter filter_empty_conv)
    with len_df have "df = []"
      by simp
    with F show "users_table ?F = [] \<and> time_table df = [] \<and> ?sp = []"
      by (simp add: users_table_def time_table_def dropDuplicates_def songplays_table_Nil)
  qed
  from users time plays u t p lu lt none show ?thesis
    by (intro exI [of _ "users_table ?F"] exI [of _ "time_table df"] exI [of _ ?sp] conjI)
qed

theorem non_next_song_records_excluded_witness:
  "fst (process_log_data utc_one_partition
         \<lparr> song_data = Some [dre_song], song_columns = catalog_columns,
           log_data = Some [dre_event\<lparr>page := Some ''Home'', userId := Some ''U9''\<rparr>,
                            dre_event,
                            dre_event\<lparr>page := None, userId := Some ''U8''\<rparr>],
           log_columns = activity_columns \<rparr>
         ''out'' Map.empty) = None
   \<and> (\<exists>us tt sp.
        snd (process_log_data utc_one_partition
         \<lparr> song_data = Some [dre_song], song_columns = catalog_columns,
           log_data = Some [dre_event\<lparr>page := Some ''Home'', userId := Some ''U9''\<rparr>,
                            dre_event,
                            dre_event\<lparr>page := None, userId := Some ''U8''\<rparr>],
           log_columns = activity_columns \<rparr>
         ''out'' Map.empty) ''out/tbl_users.parquet'' = Some ([], UsersTable us)
      \<and> snd (process_log_data utc_one_partition
         \<lparr> song_data = Some [dre_song], song_columns = catalog_columns,
           log_data = Some [dre_event\<lparr>page := Some ''Home'', userId := Some ''U9''\<rparr>,
                            dre_event,
                            dre_event\<lparr>page := None, userId := Some ''U8''\<rparr>],
           log_columns = activity_columns \<rparr>
         ''out'' Map.empty) ''out/tbl_time.parquet'' =
          Some ([''year'', ''month''], TimeTable tt)
      \<and> snd (process_log_data utc_one_partition
         \<lparr> song_data = Some [dre_song], song_columns = catalog_columns,
           log_data = Some [dre_event\<lparr>page := Some ''Home'', userId := Some ''U9''\<rparr>,
                            dre_event,
                            dre_event\<lparr>page := None, userId := Some ''U8''\<rparr>],
           log_columns = activity_columns \<rparr>
         ''out'' Map.empty) ''out/tbl_songplays.parquet'' =
          Some ([''year'', ''month''], SongplaysTable sp)
      \<and> us = [\<lparr> u_user_id = Some ''U1'', u_first_name = None, u_last_name = None,
                 u_gender = None, u_level = Some ''free'' \<rparr>]
      \<and> tt = [time_columns 0 1541440796796000]
      \<and> sp = [songplays_row_of (0, (dre_event, time_columns 0 1541440796796000), dre_song)]
      \<and> length us \<le> 1 \<and> length tt \<le> 1)"
proof -
  let ?logs = "[dre_event\<lparr>page := Some ''Home'', userId := Some ''U9''\<rparr>,
                dre_event,
                dre_event\<lparr>page := None, userId := Some ''U8''\<rparr>]"
  let ?input = "\<lparr> song_data = Some [dre_song], song_columns = catalog_columns,
                  log_data = Some ?logs, log_columns = activity_columns \<rparr>"
  let ?df = "[(dre_event, time_columns 0 1541440796796000)]"
  let ?fs = "Map.empty(''out'' @ ''/tbl_users.parquet'' \<mapsto> ([], UsersTable (users_table (next_song ?logs))),
              ''out'' @ ''/tbl_time.parquet'' \<mapsto> ([''year'', ''month''], TimeTable (time_table ?df)),
              ''out'' @ ''/tbl_songplays.parquet'' \<mapsto>
                ([''year'', ''month''],
                 SongplaysTable (songplays_table (join_order utc_one_partition)
                   (join_layout utc_one_partition) ?df [dre_song])))"
  have logs: "log_data ?input = Some ?logs"
    by simp
  have ns: "next_song ?logs = [dre_event]"
    by (simp add: next_song_def sql_eq_def dre_event_def)
  have count: "length (filter (\<lambda>r. page r = Some ''NextSong'') ?logs) = 1"
    by (simp add: dre_event_def)
  have df: "with_time_columns (time_zone utc_one_partition) (next_song ?logs) = Inr ?df"
    by (simp add: ns utc_one_partition_def get_timestamp_dre)
  have run: "process_log_data utc_one_partition ?input ''out'' Map.empty = (None, ?fs)"
    by (rule process_log_data_run [OF _ _ df]) (simp_all add: columns_defs)
  from non_next_song_records_excluded [OF run logs] obtain us tt sp where
    users: "?fs (''out'' @ ''/tbl_users.parquet'') = Some ([], UsersTable us)"
    and time: "?fs (''out'' @ ''/tbl_time.parquet'') = Some ([''year'', ''month''], TimeTable tt)"
    and plays: "?fs (''out'' @ ''/tbl_songplays.parquet'') =
      Some ([''year'', ''month''], SongplaysTable sp)"
    and lu: "length us \<le> length (filter (\<lambda>r. page r = Some ''NextSong'') ?logs)"
    and lt: "length tt \<le> length (filter (\<lambda>r. page r = Some ''NextSong'') ?logs)"
    by (elim exE conjE) (rule that)
  from users have "us = users_table (next_song ?logs)"
    by simp
  then have us: "us = [\<lparr> u_user_id = Some ''U1'', u_first_name = None, u_last_name = None,
                 u_gender = None, u_level = Some ''free'' \<rparr>]"
    by (simp add: ns users_table_def dropDuplicates_def) (simp add: dre_event_def)
  from time have "tt = time_table ?df"
    by simp
  then have tt: "tt = [time_columns 0 1541440796796000]"
    by (simp add: time_table_def dropDuplicates_def)
  have join: "join_inner ?df [dre_song] = [((dre_event, time_columns 0 1541440796796000), dre_song)]"
    by (simp add: join_inner_def sql_eq_def dre_event_def dre_song_def)
  from plays have "sp = songplays_table (join_order utc_one_partition)
      (join_layout utc_one_partition) ?df [dre_song]"
    by simp
  then have sp: "sp = [songplays_row_of (0, (dre_event, time_columns 0 1541440796796000), dre_song)]"
    by (simp add: songplays_table_def utc_one_partition_def join engine_order_single
        monotonically_increasing_id_def)
  from lu lt have bounds: "length us \<le> 1" "length tt \<le> 1"
    by (simp_all only: count)
  from users have "snd (process_log_data utc_one_partition ?input ''out'' Map.empty)
      ''out/tbl_users.parquet'' = Some ([], UsersTable us)"
    unfolding run by simp
  moreover from time have "snd (process_log_data utc_one_partition ?input ''out'' Map.empty)
      ''out/tbl_time.parquet'' = Some ([''year'', ''month''], TimeTable tt)"
    unfolding run by simp
  moreover from plays have "snd (process_log_data utc_one_partition ?input ''out'' Map.empty)
      ''out/tbl_songplays.parquet'' = Some ([''year'', ''month''], SongplaysTable sp)"
    unfolding run by simp
  moreover have "fst (process_log_data utc_one_partition ?input ''out'' Map.empty) = None"
    unfolding run by simp
  ultimately show ?thesis
    using us tt sp bounds by (intro conjI exI [of _ us] exI [of _ tt] exI [of _ sp])
qed

section \<open>The songplays table\<close>

text \<open>
  Apart from the identifiers, the songplays table holds the projections of the joined
  rows, each as often as the join has it, whatever the order of the rows and the layout
  of the partitions.
\<close>

lemma songplays_table_without_ids:
  "mset (map (\<lambda>p. p\<lparr>songplay_id := 0\<rparr>) (songplays_table order layout df song_df)) =
     mset (map (\<lambda>x. songplays_row_of (0, x)) (join_inner df song_df))"
proof -
  let ?joined = "engine_order order (join_inner df song_df)"
  let ?ys = "withColumn_id 0 (partitions layout ?joined)"
  have "(songplays_row_of y)\<lparr>songplay_id := 0\<rparr> = songplays_row_of (0, snd y)" for y
    by (cases y) (auto simp: songplays_row_of_def)
  then have "map (\<lambda>p. p\<lparr>songplay_id := 0\<rparr>) (map songplays_row_of ?ys) =
      map (\<lambda>x. songplays_row_of (0, x)) (map snd ?ys)"
    by simp
  then have "map (\<lambda>p. p\<lparr>songplay_id := 0\<rparr>) (songplays_table order layout df song_df) =
      map (\<lambda>x. songplays_row_of (0, x)) ?joined"
    by (simp only: songplays_table_def map_snd_withColumn_id concat_partitions)
  then show ?thesis
    by (simp only: mset_map mset_engine_order)
qed

lemma join_inner_dre:
  "join_inner [(dre_event\<lparr>artist := Some a\<rparr>, t)] [dre_song] =
     (if a = ''Dr. Dre'' then [((dre_event\<lparr>artist := Some a\<rparr>, t), dre_song)] else [])"
  by (auto simp: join_inner_def sql_eq_def dre_song_def)

lemma with_time_columns_dre_artist:
  "with_time_columns tz (next_song [dre_event\<lparr>artist := Some a\<rparr>]) =
     Inr [(dre_event\<lparr>artist := Some a\<rparr>, time_columns tz 1541440796796000)]"
  by (simp add: next_song_def sql_eq_def dre_event_def get_timestamp_def)

lemma dre_event_artist: "dre_event\<lparr>artist := Some ''Dr. Dre''\<rparr> = dre_event"
  by (simp add: dre_event_def)

lemma process_log_data_dre:
  fixes a :: string
  defines "e \<equiv> dre_event\<lparr>artist := Some a\<rparr>"
  shows "\<exists>fs' rows.
      process_log_data spark
        \<lparr> song_data = Some [dre_song], song_columns = dre_song_columns,
          log_data = Some [e], log_columns = activity_columns \<rparr>
        output_data Map.empty = (None, fs')
      \<and> fs' (output_data @ ''/tbl_songplays.parquet'') =
          Some ([''year'', ''month''], SongplaysTable rows)
      \<and> map (\<lambda>p. p\<lparr>songplay_id := 0\<rparr>) rows =
          (if a = ''Dr. Dre''
           then [songplays_row_of (0, (e, time_columns (time_zone spark) 1541440796796000), dre_song)]
           else [])"
proof -
  let ?input = "\<lparr> song_data = Some [dre_song], song_columns = dre_song_columns,
                  log_data = Some [e], log_columns = activity_columns \<rparr>"
  let ?df = "[(e, time_columns (time_zone spark) 1541440796796000)]"
  let ?rows = "songplays_table (join_order spark) (join_layout spark) ?df [dre_song]"
  let ?zero = "\<lambda>p. p\<lparr>songplay_id := 0\<rparr>"
  have df: "with_time_columns (time_zone spark) (next_song [e]) = Inr ?df"
    unfolding e_def by (rule with_time_columns_dre_artist)
  have run: "process_log_data spark ?input output_data Map.empty =
     (None, Map.empty(output_data @ ''/tbl_users.parquet'' \<mapsto> ([], UsersTable (users_table (next_song [e]))),
              output_data @ ''/tbl_time.parquet'' \<mapsto> ([''year'', ''month''], TimeTable (time_table ?df)),
              output_data @ ''/tbl_songplays.parquet'' \<mapsto> ([''year'', ''month''], SongplaysTable ?rows)))"
    by (rule process_log_data_run [OF _ _ df]) (simp_all add: columns_defs)
  have m: "mset (map ?zero ?rows) =
          mset (if a = ''Dr. Dre''
           then [songplays_row_of (0, (e, time_columns (time_zone spark) 1541440796796000), dre_song)]
           else [])"
    unfolding songplays_table_without_ids e_def join_inner_dre by simp
  have "map ?zero ?rows =
          (if a = ''Dr. Dre''
           then [songplays_row_of (0, (e, time_columns (time_zone spark) 1541440796796000), dre_song)]
           else [])"
  proof (cases "a = ''Dr. Dre''")
    case True
    with m have "mset (map ?zero ?rows) =
        {#songplays_row_of (0, (e, time_columns (time_zone spark) 1541440796796000), dre_song)#}"
      by simp
    then have "map ?zero ?rows =
        [songplays_row_of (0, (e, time_columns (time_zone spark) 1541440796796000), dre_song)]"
      by (simp only: mset_single_iff)
    with True show ?thesis
      by simp
  next
    case False
    with m show ?thesis
      by simp
  qed
  with run show ?thesis
    by (intro exI [of _ ?rows] exI conjI) (assumption, simp, assumption)
qed

text \<open>
  C1, as amended. From the one catalog record and the one activity record of the example,
  the activity record carrying also the keys \<^verbatim>\<open>firstName\<close>, \<^verbatim>\<open>lastName\<close> and
  \<^verbatim>\<open>gender\<close> (here as \<^verbatim>\<open>null\<close>), on an empty output store, the event transform
  completes and writes a songplays table of exactly one row, with song_id \<open>S1\<close> and
  user_id \<open>U1\<close>. With the artist of the activity record spelled \<open>dr. dre\<close> the
  table written is empty; more generally, with any artist string the table has one row if
  the string is exactly \<open>Dr. Dre\<close> and none otherwise.
\<close>

theorem dre_exact_match_join:
  "(\<exists>fs' row.
      process_log_data spark
        \<lparr> song_data = Some [dre_song], song_columns = dre_song_columns,
          log_data = Some [dre_event], log_columns = activity_columns \<rparr>
        output_data Map.empty = (None, fs')
      \<and> fs' (output_data @ ''/tbl_songplays.parquet'') =
          Some ([''year'', ''month''], SongplaysTable [row])
      \<and> sp_song_id row = Some ''S1'' \<and> sp_user_id row = Some ''U1'')
   \<and> (\<exists>fs'.
      process_log_data spark
        \<lparr> song_data = Some [dre_song], song_columns = dre_song_columns,
          log_data = Some [dre_event\<lparr>artist := Some ''dr. dre''\<rparr>],
          log_columns = activity_columns \<rparr>
        output_data Map.empty = (None, fs')
      \<and> fs' (output_data @ ''/tbl_songplays.parquet'') =
          Some ([''year'', ''month''], SongplaysTable []))
   \<and> (\<exists>fs' rows.
      process_log_data spark
        \<lparr> song_data = Some [dre_song], song_columns = dre_song_columns,
          log_data = Some [dre_event\<lparr>artist := Some a\<rparr>],
          log_columns = activity_columns \<rparr>
        output_data Map.empty = (None, fs')
      \<and> fs' (output_data @ ''/tbl_songplays.parquet'') =
          Some ([''year'', ''month''], SongplaysTable rows)
      \<and> length rows = (if a = ''Dr. Dre'' then 1 else 0))"
proof (intro conjI)
  from process_log_data_dre [of spark "''Dr. Dre''" output_data] obtain fs' rows where
    run: "process_log_data spark
        \<lparr> song_data = Some [dre_song], song_columns = dre_song_columns,
          log_data = Some [dre_event], log_columns = activity_columns \<rparr>
        output_data Map.empty = (None, fs')"
    and written: "fs' (output_data @ ''/tbl_songplays.parquet'') =
          Some ([''year'', ''month''], SongplaysTable rows)"
    and rows: "map (\<lambda>p. p\<lparr>songplay_id := 0\<rparr>) rows =
      [songplays_row_of (0, (dre_event, time_columns (time_zone spark) 1541440796796000), dre_song)]"
    unfolding dre_event_artist by auto
  from rows obtain row where row: "rows = [row]"
    and eq: "row\<lparr>songplay_id := 0\<rparr> =
      songplays_row_of (0, (dre_event, time_columns (time_zone spark) 1541440796796000), dre_song)"
    by (auto simp: map_eq_Cons_conv)
  have "sp_song_id (row\<lparr>songplay_id := 0\<rparr>) = Some ''S1''"
    "sp_user_id (row\<lparr>songplay_id := 0\<rparr>) = Some ''U1''"
    unfolding eq by (simp_all add: songplays_row_of_def dre_song_def dre_event_def)
  then have "sp_song_id row = Some ''S1''" "sp_user_id row = Some ''U1''"
    by simp_all
  with run written row show "\<exists>fs' row.
      process_log_data spark
        \<lparr> song_data = Some [dre_song], song_columns = dre_song_columns,
          log_data = Some [dre_event], log_columns = activity_columns \<rparr>
        output_data Map.empty = (None, fs')
      \<and> fs' (output_data @ ''/tbl_songplays.parquet'') =
          Some ([''year'', ''month''], SongplaysTable [row])
      \<and> sp_song_id row = Some ''S1'' \<and> sp_user_id row = Some ''U1''"
    by blast
next
  from process_log_data_dre [of spark "''dr. dre''" output_data]
  show "\<exists>fs'.
      process_log_data spark
        \<lparr> song_data = Some [dre_song], song_columns = dre_song_columns,
          log_data = Some [dre_event\<lparr>artist := Some ''dr. dre''\<rparr>],
          log_columns = activity_columns \<rparr>
        output_data Map.empty = (None, fs')
      \<and> fs' (output_data @ ''/tbl_songplays.parquet'') =
          Some ([''year'', ''month''], SongplaysTable [])"
    by auto
next
  from process_log_data_dre [of spark a output_data] obtain fs' rows where
    run: "process_log_data spark
        \<lparr> song_data = Some [dre_song], song_columns = dre_song_columns,
          log_data = Some [dre_event\<lparr>artist := Some a\<rparr>],
          log_columns = activity_columns \<rparr>
        output_data Map.empty = (None, fs')"
    and written: "fs' (output_data @ ''/tbl_songplays.parquet'') =
          Some ([''year'', ''month''], SongplaysTable rows)"
    and rows: "map (\<lambda>p. p\<lparr>songplay_id := 0\<rparr>) rows =
          (if a = ''Dr. Dre''
           then [songplays_row_of (0, (dre_event\<lparr>artist := Some a\<rparr>,
                   time_columns (time_zone spark) 1541440796796000), dre_song)]
           else [])"
    by blast
  have "length rows = length (map (\<lambda>p. p\<lparr>songplay_id := 0\<rparr>) rows)"
    by simp
  also have "\<dots> = (if a = ''Dr. Dre'' then 1 else 0)"
    unfolding rows by simp
  finally show "\<exists>fs' rows.
      process_log_data spark
        \<lparr> song_data = Some [dre_song], song_columns = dre_song_columns,
          log_data = Some [dre_event\<lparr>artist := Some a\<rparr>],
          log_columns = activity_columns \<rparr>
        output_data Map.empty = (None, fs')
      \<and> fs' (output_data @ ''/tbl_songplays.parquet'') =
          Some ([''year'', ''month''], SongplaysTable rows)
      \<and> length rows = (if a = ''Dr. Dre'' then 1 else 0)"
    using run written by blast
qed

theorem dre_exact_match_join_witness:
  "(\<exists>fs' row.
      process_log_data utc_one_partition
        \<lparr> song_data = Some [dre_song], song_columns = dre_song_columns,
          log_data = Some [dre_event], log_columns = activity_columns \<rparr>
        ''out'' Map.empty = (None, fs')
      \<and> fs' (''out'' @ ''/tbl_songplays.parquet'') =
          Some ([''year'', ''month''], SongplaysTable [row])
      \<and> sp_song_id row = Some ''S1'' \<and> sp_user_id row = Some ''U1'')
   \<and> (\<exists>fs'.
      process_log_data utc_one_partition
        \<lparr> song_data = Some [dre_song], song_columns = dre_song_columns,
          log_data = Some [dre_event\<lparr>artist := Some ''dr. dre''\<rparr>],
          log_columns = activity_columns \<rparr>
        ''out'' Map.empty = (None, fs')
      \<and> fs' (''out'' @ ''/tbl_songplays.parquet'') =
          Some ([''year'', ''month''], SongplaysTable []))
   \<and> (\<exists>fs' rows.
      process_log_data utc_one_partition
        \<lparr> song_data = Some [dre_song], song_columns = dre_song_columns,
          log_data = Some [dre_event\<lparr>artist := Some ''Dr Dre''\<rparr>],
          log_columns = activity_columns \<rparr>
        ''out'' Map.empty = (None, fs')
      \<and> fs' (''out'' @ ''/tbl_songplays.parquet'') =
          Some ([''year'', ''month''], SongplaysTable rows)
      \<and> length rows = (if ''Dr Dre'' = ''Dr. Dre'' then 1 else 0))"
  by (rule dre_exact_match_join [of utc_one_partition "''out''" "''Dr Dre''"])

text \<open>
  The claim as stated fails. Its activity record has no key \<^verbatim>\<open>firstName\<close>,
  \<^verbatim>\<open>lastName\<close> or \<^verbatim>\<open>gender\<close>, so the log read has no such columns: the selection
  of the columns of the users table raises, and the transform ends before it has written
  any table. No songplays table is produced.
\<close>

theorem dre_missing_columns_counterexample:
  "fst (process_log_data utc_one_partition
         \<lparr> song_data = Some [dre_song], song_columns = dre_song_columns,
           log_data = Some [dre_event], log_columns = dre_event_columns \<rparr>
         ''out'' Map.empty) = Some UnresolvedColumn
   \<and> snd (process_log_data utc_one_partition
         \<lparr> song_data = Some [dre_song], song_columns = dre_song_columns,
           log_data = Some [dre_event], log_columns = dre_event_columns \<rparr>
         ''out'' Map.empty) ''out/tbl_songplays.parquet'' = None
   \<and> snd (process_log_data utc_one_partition
         \<lparr> song_data = Some [dre_song], song_columns = dre_song_columns,
           log_data = Some [dre_event], log_columns = dre_event_columns \<rparr>
         ''out'' Map.empty) ''out/tbl_users.parquet'' = None"
proof -
  let ?input = "\<lparr> song_data = Some [dre_song], song_columns = dre_song_columns,
                  log_data = Some [dre_event], log_columns = dre_event_columns \<rparr>"
  have "process_log_data utc_one_partition ?input ''out'' Map.empty =
      (Some UnresolvedColumn, Map.empty)"
    by (rule process_log_data_unresolved [of _ "[dre_event]"]) (simp_all add: columns_defs)
  then show ?thesis
    by simp
qed

section \<open>One activity record, several catalog records\<close>

lemma join_inner_append:
  "join_inner (d1 @ d2) song_df = join_inner d1 song_df @ join_inner d2 song_df"
  by (simp add: join_inner_def)

lemma join_inner_single:
  "join_inner [l] song_df = map (Pair l) (filter (\<lambda>s. sql_eq (artist_name s) (artist (fst l))) song_df)"
  by (simp add: join_inner_def)

lemma length_join_inner:
  "length (join_inner df song_df) =
     (\<Sum>l\<leftarrow>df. length (filter (\<lambda>s. sql_eq (artist_name s) (artist (fst l))) song_df))"
  by (simp add: join_inner_def length_concat comp_def)

text \<open>
  C9. Let the event transform complete on a log that holds the activity record \<open>e\<close>
  with page \<open>NextSong\<close> and artist \<open>a\<close>. The rows of the songplays table
  written, taken as a multiset (in whatever order and with whatever identifiers the engine
  gives them), are the rows of \<open>e\<close> together with the rows of the other records of
  the log. There is exactly one row of \<open>e\<close> for every catalog record whose
  artist_name is \<open>a\<close>: as many rows as there are such catalog records, each with the
  user and time columns of \<open>e\<close> and the song_id and artist_id of its catalog record.
  The song title plays no part in the join.
\<close>

theorem one_songplay_per_matching_catalog_record:
  assumes "process_log_data spark input_data output_data fs = (None, fs')"
    and "log_data input_data = Some (before @ e # after)"
    and "song_data input_data = Some song_df"
    and "page e = Some ''NextSong''"
    and "artist e = Some a"
  shows "\<exists>rows from_e others st.
      fs' (output_data @ ''/tbl_songplays.parquet'') =
        Some ([''year'', ''month''], SongplaysTable rows)
      \<and> mset rows = from_e + others
      \<and> get_timestamp (ts e) = Inr st
      \<and> image_mset (\<lambda>p. p\<lparr>songplay_id := 0\<rparr>) from_e =
          mset (map (\<lambda>s. songplays_row_of (0, (e, time_columns (time_zone spark) st), s))
                 (filter (\<lambda>s. artist_name s = Some a) song_df))
      \<and> size from_e = length (filter (\<lambda>s. artist_name s = Some a) song_df)
      \<and> image_mset (\<lambda>p. (sp_song_id p, sp_artist_id p)) from_e =
          mset (map (\<lambda>s. (song_id s, artist_id s)) (filter (\<lambda>s. artist_name s = Some a) song_df))
      \<and> size others =
          (\<Sum>r\<leftarrow>filter (\<lambda>r. page r = Some ''NextSong'') (before @ after).
             length (filter (\<lambda>s. artist_name s = artist r \<and> artist r \<noteq> None) song_df))
      \<and> (\<forall>p\<in>#others. \<exists>r\<in>set (before @ after). \<exists>st' s.
             page r = Some ''NextSong'' \<and> get_timestamp (ts r) = Inr st'
             \<and> s \<in> set song_df \<and> artist_name s = artist r \<and> artist r \<noteq> None
             \<and> p\<lparr>songplay_id := 0\<rparr> =
                 songplays_row_of (0, (r, time_columns (time_zone spark) st'), s))"
proof -
  let ?tz = "time_zone spark"
  let ?g = "\<lambda>r. (r, time_columns ?tz (projr (get_timestamp (ts r))))"
  let ?h = "\<lambda>x. songplays_row_of (0, x)"
  let ?zero = "\<lambda>p. p\<lparr>songplay_id := 0\<rparr>"
  let ?matches = "filter (\<lambda>s. artist_name s = Some a) song_df"
  let ?rest = "next_song (before @ after)"
  from assms(1) obtain logs' df song_df' where "log_data input_data = Some logs'"
    "song_data input_data = Some song_df'"
    and df0: "with_time_columns ?tz (next_song logs') = Inr df"
    and written0: "fs' (output_data @ ''/tbl_songplays.parquet'') =
      Some ([''year'', ''month''],
            SongplaysTable (songplays_table (join_order spark) (join_layout spark) df song_df'))"
    by (rule process_log_data_ok) simp
  with assms(2,3) have logs': "logs' = before @ e # after" and [simp]: "song_df' = song_df"
    by simp_all
  let ?rows = "songplays_table (join_order spark) (join_layout spark) df song_df"
  have F: "next_song logs' = next_song before @ [e] @ next_song after"
    using assms(4) by (simp add: logs' next_song_filter)
  have rest: "?rest = next_song before @ next_song after"
    by (simp add: next_song_filter)
  from df0 have ts: "\<forall>r\<in>set (next_song logs'). \<exists>st. get_timestamp (ts r) = Inr st"
    and df: "df = map ?g (next_song before) @ [?g e] @ map ?g (next_song after)"
    by (simp_all add: with_time_columns_Inr F)
  from ts obtain st where st: "get_timestamp (ts e) = Inr st"
    by (auto simp: F)
  then have ge: "?g e = (e, time_columns ?tz st)"
    by simp
  have je: "join_inner [?g e] song_df = map (Pair (e, time_columns ?tz st)) ?matches"
    by (simp add: join_inner_single assms(5) st sql_eq_Some)
  have "join_inner df song_df =
      join_inner (map ?g (next_song before)) song_df
        @ join_inner [?g e] song_df @ join_inner (map ?g (next_song after)) song_df"
    by (simp only: df join_inner_append)
  moreover have "join_inner (map ?g ?rest) song_df =
      join_inner (map ?g (next_song before)) song_df
        @ join_inner (map ?g (next_song after)) song_df"
    by (simp only: rest map_append join_inner_append)
  ultimately have "mset (join_inner df song_df) =
      mset (join_inner [?g e] song_df) + mset (join_inner (map ?g ?rest) song_df)"
    by (simp only: mset_append ac_simps)
  then have "image_mset ?zero (mset ?rows) =
      mset (map ?h (join_inner [?g e] song_df)) + mset (map ?h (join_inner (map ?g ?rest) song_df))"
    using songplays_table_without_ids [of "join_order spark" "join_layout spark" df song_df]
    by simp
  from image_mset_eq_plusD [OF this] obtain from_e others where
    split: "mset ?rows = from_e + others"
    and E: "mset (map ?h (join_inner [?g e] song_df)) = image_mset ?zero from_e"
    and O: "mset (map ?h (join_inner (map ?g ?rest) song_df)) = image_mset ?zero others"
    by blast
  have E': "image_mset ?zero from_e =
      mset (map (\<lambda>s. songplays_row_of (0, (e, time_columns ?tz st), s)) ?matches)"
    unfolding E [symmetric] je by (simp add: comp_def)
  have "size from_e = size (image_mset ?zero from_e)"
    by simp
  also have "\<dots> = length ?matches"
    unfolding E' by (simp only: size_mset length_map)
  finally have sizeE: "size from_e = length ?matches" .
  have "image_mset (\<lambda>p. (sp_song_id p, sp_artist_id p)) from_e =
      image_mset (\<lambda>p. (sp_song_id p, sp_artist_id p)) (image_mset ?zero from_e)"
    by (simp add: image_mset.compositionality comp_def)
  also have "\<dots> = mset (map (\<lambda>s. (song_id s, artist_id s)) ?matches)"
    unfolding E' by (simp add: image_mset.compositionality comp_def songplays_row_of_def)
  finally have ids: "image_mset (\<lambda>p. (sp_song_id p, sp_artist_id p)) from_e =
      mset (map (\<lambda>s. (song_id s, artist_id s)) ?matches)" .
  have "size others = size (image_mset ?zero others)"
    by simp
  also have "\<dots> = length (join_inner (map ?g ?rest) song_df)"
    unfolding O [symmetric] by (simp only: size_mset length_map)
  also have "\<dots> = (\<Sum>r\<leftarrow>filter (\<lambda>r. page r = Some ''NextSong'') (before @ after).
             length (filter (\<lambda>s. artist_name s = artist r \<and> artist r \<noteq> None) song_df))"
    by (simp add: length_join_inner next_song_filter comp_def sql_eq_iff)
  finally have sizeO: "size others =
      (\<Sum>r\<leftarrow>filter (\<lambda>r. page r = Some ''NextSong'') (before @ after).
             length (filter (\<lambda>s. artist_name s = artist r \<and> artist r \<noteq> None) song_df))" .
  have prov: "\<forall>p\<in>#others. \<exists>r\<in>set (before @ after). \<exists>st' s.
             page r = Some ''NextSong'' \<and> get_timestamp (ts r) = Inr st'
             \<and> s \<in> set song_df \<and> artist_name s = artist r \<and> artist r \<noteq> None
             \<and> p\<lparr>songplay_id := 0\<rparr> = songplays_row_of (0, (r, time_columns ?tz st'), s)"
  proof
    fix p assume "p \<in># others"
    then have "?zero p \<in># image_mset ?zero others"
      by simp
    then have "?zero p \<in> set (map ?h (join_inner (map ?g ?rest) song_df))"
      unfolding O [symmetric] by simp
    then obtain r s where r: "r \<in> set ?rest" and s: "s \<in> set song_df"
      and eq: "sql_eq (artist_name s) (artist r)" and p: "?zero p = ?h (?g r, s)"
      by (auto simp: join_inner_def)
    from r have r': "r \<in> set (before @ after)" "page r = Some ''NextSong''"
      by (simp_all add: set_next_song)
    from r have "r \<in> set (next_song logs')"
      by (auto simp: F rest)
    with ts obtain st' where st': "get_timestamp (ts r) = Inr st'"
      by blast
    from eq have "artist_name s = artist r" "artist r \<noteq> None"
      by (simp_all add: sql_eq_iff)
    moreover from p st' have "?zero p = songplays_row_of (0, (r, time_columns ?tz st'), s)"
      by simp
    ultimately show "\<exists>r\<in>set (before @ after). \<exists>st' s.
             page r = Some ''NextSong'' \<and> get_timestamp (ts r) = Inr st'
             \<and> s \<in> set song_df \<and> artist_name s = artist r \<and> artist r \<noteq> None
             \<and> p\<lparr>songplay_id := 0\<rparr> = songplays_row_of (0, (r, time_columns ?tz st'), s)"
      using r' s st' by blast
  qed
  from written0 have "fs' (output_data @ ''/tbl_songplays.parquet'') =
        Some ([''year'', ''month''], SongplaysTable ?rows)"
    by simp
  with split st E' sizeE ids sizeO prov show ?thesis
    by (intro exI [of _ ?rows] exI [of _ from_e] exI [of _ others] exI [of _ st] conjI)
qed

theorem one_songplay_per_matching_catalog_record_witness:
  "fst (process_log_data \<lparr> time_zone = 0, join_order = [0, 2, 1], join_layout = [2] \<rparr>
         \<lparr> song_data = Some [dre_song, dre_song\<lparr>song_id := Some ''S2''\<rparr>,
                             dre_song\<lparr>song_id := Some ''S3'', artist_name := Some ''Other''\<rparr>],
           song_columns = catalog_columns,
           log_data = Some [dre_event\<lparr>artist := Some ''Other''\<rparr>, dre_event],
           log_columns = activity_columns \<rparr>
         ''out'' Map.empty) = None
   \<and> (\<exists>rows from_e others.
        snd (process_log_data \<lparr> time_zone = 0, join_order = [0, 2, 1], join_layout = [2] \<rparr>
         \<lparr> song_data = Some [dre_song, dre_song\<lparr>song_id := Some ''S2''\<rparr>,
                             dre_song\<lparr>song_id := Some ''S3'', artist_name := Some ''Other''\<rparr>],
           song_columns = catalog_columns,
           log_data = Some [dre_event\<lparr>artist := Some ''Other''\<rparr>, dre_event],
           log_columns = activity_columns \<rparr>
         ''out'' Map.empty) ''out/tbl_songplays.parquet'' =
          Some ([''year'', ''month''], SongplaysTable rows)
        \<and> map sp_song_id rows = [Some ''S3'', Some ''S2'', Some ''S1'']
        \<and> mset rows = from_e + others
        \<and> length rows = 3
        \<and> size from_e = 2
        \<and> image_mset (\<lambda>p. (sp_song_id p, sp_artist_id p)) from_e =
            {#(Some ''S1'', Some ''A1''), (Some ''S2'', Some ''A1'')#}
        \<and> size others = 1)"
proof -
  let ?songs = "[dre_song, dre_song\<lparr>song_id := Some ''S2''\<rparr>,
                 dre_song\<lparr>song_id := Some ''S3'', artist_name := Some ''Other''\<rparr>]"
  let ?other = "dre_event\<lparr>artist := Some ''Other''\<rparr>"
  let ?logs = "[?other, dre_event]"
  let ?input = "\<lparr> song_data = Some ?songs, song_columns = catalog_columns,
                  log_data = Some ?logs, log_columns = activity_columns \<rparr>"
  let ?spark = "\<lparr> time_zone = 0, join_order = [0, 2, 1], join_layout = [2] \<rparr>"
  let ?df = "[(?other, time_columns 0 1541440796796000),
              (dre_event, time_columns 0 1541440796796000)]"
  let ?fs = "Map.empty(''out'' @ ''/tbl_users.parquet'' \<mapsto> ([], UsersTable (users_table (next_song ?logs))),
              ''out'' @ ''/tbl_time.parquet'' \<mapsto> ([''year'', ''month''], TimeTable (time_table ?df)),
              ''out'' @ ''/tbl_songplays.parquet'' \<mapsto>
                ([''year'', ''month''],
                 SongplaysTable (songplays_table (join_order ?spark)
                   (join_layout ?spark) ?df ?songs)))"
  have df: "with_time_columns (time_zone ?spark) (next_song ?logs) = Inr ?df"
    by (simp add: next_song_def sql_eq_def dre_event_def get_timestamp_def)
  have run: "process_log_data ?spark ?input ''out'' Map.empty = (None, ?fs)"
    by (rule process_log_data_run [OF _ _ df]) (simp_all add: columns_defs)
  have logs: "log_data ?input = Some ([?other] @ dre_event # [])"
    by simp
  have songs: "song_data ?input = Some ?songs"
    by simp
  have page: "page dre_event = Some ''NextSong''" and artist: "artist dre_event = Some ''Dr. Dre''"
    by (simp_all add: dre_event_def)
  from one_songplay_per_matching_catalog_record [OF run logs songs page artist]
  obtain rows from_e others where
    written: "?fs (''out'' @ ''/tbl_songplays.parquet'') =
        Some ([''year'', ''month''], SongplaysTable rows)"
    and split: "mset rows = from_e + others"
    and sizeE: "size from_e = length (filter (\<lambda>s. artist_name s = Some ''Dr. Dre'') ?songs)"
    and ids: "image_mset (\<lambda>p. (sp_song_id p, sp_artist_id p)) from_e =
          mset (map (\<lambda>s. (song_id s, artist_id s))
                 (filter (\<lambda>s. artist_name s = Some ''Dr. Dre'') ?songs))"
    and sizeO: "size others =
          (\<Sum>r\<leftarrow>filter (\<lambda>r. page r = Some ''NextSong'') ([?other] @ ([] :: log_record list)).
             length (filter (\<lambda>s. artist_name s = artist r \<and> artist r \<noteq> None) ?songs))"
    by (elim exE conjE) (rule that)
  from written have "rows = songplays_table (join_order ?spark) (join_layout ?spark) ?df ?songs"
    by simp
  then have order: "map sp_song_id rows = [Some ''S3'', Some ''S2'', Some ''S1'']"
    by (simp add: songplays_table_def join_inner_def engine_order_def sql_eq_def
        songplays_row_of_def dre_song_def dre_event_def)
  from sizeE have sizeE': "size from_e = 2"
    by (simp add: dre_song_def)
  from ids have ids': "image_mset (\<lambda>p. (sp_song_id p, sp_artist_id p)) from_e =
            {#(Some ''S1'', Some ''A1''), (Some ''S2'', Some ''A1'')#}"
    by (simp add: dre_song_def)
  from sizeO have sizeO': "size others = 1"
    by (simp add: dre_song_def dre_event_def)
  have "length rows = size (mset rows)"
    by simp
  also have "\<dots> = 3"
    unfolding split by (simp add: sizeE' sizeO')
  finally have len: "length rows = 3" .
  from written have "snd (process_log_data ?spark ?input ''out'' Map.empty)
      ''out/tbl_songplays.parquet'' = Some ([''year'', ''month''], SongplaysTable rows)"
    unfolding run by simp
  moreover have "fst (process_log_data ?spark ?input ''out'' Map.empty) = None"
    unfolding run by simp
  ultimately show ?thesis
    using order split len sizeE' ids' sizeO'
    by (intro conjI exI [of _ rows] exI [of _ from_e] exI [of _ others])
qed
section \<open>The entry point and a failing event transform\<close>


text \<open>
  C8. The entry point runs the catalog transform and then, only if that returned without
  an error, the event transform on the store the catalog transform left. When the event
  transform raises, the run ends with that error and the songs and artists tables written
  by the catalog transform are still in the store: the event transform removes and
  replaces nothing. A run can so end with some tables written and others not.
\<close>

theorem catalog_outputs_survive_event_failure:
  "(process_song_data spark input_data ''s3a://your-output-bucket/'' fs = (Some e, fs1) \<longrightarrow>
      main spark input_data fs = (Some e, fs1))
   \<and> (process_song_data spark input_data ''s3a://your-output-bucket/'' fs = (None, fs1) \<longrightarrow>
      main spark input_data fs =
        process_log_data spark input_data ''s3a://your-output-bucket/'' fs1)
   \<and> (process_song_data spark input_data ''s3a://your-output-bucket/'' fs = (None, fs1)
      \<and> process_log_data spark input_data ''s3a://your-output-bucket/'' fs1 = (Some e, fs2) \<longrightarrow>
        main spark input_data fs = (Some e, fs2)
        \<and> (\<exists>df. song_data input_data = Some df
              \<and> fs2 ''s3a://your-output-bucket//tbl_songs.parquet'' =
                  Some ([''year'', ''artist_id''], SongsTable (songs_table df))
              \<and> fs2 ''s3a://your-output-bucket//tbl_artists.parquet'' =
                  Some ([], ArtistsTable (artists_table df)))
        \<and> fs1 \<subseteq>\<^sub>m fs2)"
proof (intro conjI impI)
  assume "process_song_data spark input_data ''s3a://your-output-bucket/'' fs = (Some e, fs1)"
  then show "main spark input_data fs = (Some e, fs1)"
    by (simp add: main_def)
next
  assume "process_song_data spark input_data ''s3a://your-output-bucket/'' fs = (None, fs1)"
  then show "main spark input_data fs =
      process_log_data spark input_data ''s3a://your-output-bucket/'' fs1"
    by (simp add: main_def)
next
  assume both: "process_song_data spark input_data ''s3a://your-output-bucket/'' fs = (None, fs1)
      \<and> process_log_data spark input_data ''s3a://your-output-bucket/'' fs1 = (Some e, fs2)"
  then show "main spark input_data fs = (Some e, fs2)"
    by (simp add: main_def)
  from both have song: "process_song_data spark input_data ''s3a://your-output-bucket/'' fs = (None, fs1)"
    and log: "process_log_data spark input_data ''s3a://your-output-bucket/'' fs1 = (Some e, fs2)"
    by blast+
  from log show le: "fs1 \<subseteq>\<^sub>m fs2"
    by (rule process_log_data_map_le)
  from song obtain df where df: "song_data input_data = Some df"
    and fs1: "fs1 = fs(''s3a://your-output-bucket/'' @ ''/tbl_songs.parquet'' \<mapsto>
                ([''year'', ''artist_id''], SongsTable (songs_table df)),
              ''s3a://your-output-bucket/'' @ ''/tbl_artists.parquet'' \<mapsto>
                ([], ArtistsTable (artists_table df)))"
    by (rule process_song_data_ok)
  have "fs1 ''s3a://your-output-bucket//tbl_songs.parquet'' =
      Some ([''year'', ''artist_id''], SongsTable (songs_table df))"
    by (simp add: fs1)
  then have songs: "fs2 ''s3a://your-output-bucket//tbl_songs.parquet'' =
      Some ([''year'', ''artist_id''], SongsTable (songs_table df))"
    by (rule map_le_Some [OF le])
  have "fs1 ''s3a://your-output-bucket//tbl_artists.parquet'' =
      Some ([], ArtistsTable (artists_table df))"
    by (simp add: fs1)
  then have artists: "fs2 ''s3a://your-output-bucket//tbl_artists.parquet'' =
      Some ([], ArtistsTable (artists_table df))"
    by (rule map_le_Some [OF le])
  from df songs artists show "\<exists>df. song_data input_data = Some df
              \<and> fs2 ''s3a://your-output-bucket//tbl_songs.parquet'' =
                  Some ([''year'', ''artist_id''], SongsTable (songs_table df))
              \<and> fs2 ''s3a://your-output-bucket//tbl_artists.parquet'' =
                  Some ([], ArtistsTable (artists_table df))"
    by blast
qed

theorem catalog_outputs_survive_event_failure_witness:
  "fst (main utc_one_partition
         \<lparr> song_data = Some [dre_song], song_columns = catalog_columns,
           log_data = Some [dre_event\<lparr>ts := None\<rparr>],
           log_columns = activity_columns \<rparr>
         Map.empty) = Some UdfTypeError
   \<and> snd (main utc_one_partition
         \<lparr> song_data = Some [dre_song], song_columns = catalog_columns,
           log_data = Some [dre_event\<lparr>ts := None\<rparr>],
           log_columns = activity_columns \<rparr>
         Map.empty) ''s3a://your-output-bucket//tbl_songs.parquet'' =
       Some ([''year'', ''artist_id''], SongsTable (songs_table [dre_song]))
   \<and> snd (main utc_one_partition
         \<lparr> song_data = Some [dre_song], song_columns = catalog_columns,
           log_data = Some [dre_event\<lparr>ts := None\<rparr>],
           log_columns = activity_columns \<rparr>
         Map.empty) ''s3a://your-output-bucket//tbl_artists.parquet'' =
       Some ([], ArtistsTable (artists_table [dre_song]))
   \<and> snd (main utc_one_partition
         \<lparr> song_data = Some [dre_song], song_columns = catalog_columns,
           log_data = Some [dre_event\<lparr>ts := None\<rparr>],
           log_columns = activity_columns \<rparr>
         Map.empty) ''s3a://your-output-bucket//tbl_time.parquet'' = None
   \<and> snd (main utc_one_partition
         \<lparr> song_data = Some [dre_song], song_columns = catalog_columns,
           log_data = Some [dre_event\<lparr>ts := None\<rparr>],
           log_columns = activity_columns \<rparr>
         Map.empty) ''s3a://your-output-bucket//tbl_songplays.parquet'' = None"
proof -
  let ?out = "''s3a://your-output-bucket/''"
  let ?input = "\<lparr> song_data = Some [dre_song], song_columns = catalog_columns,
                  log_data = Some [dre_event\<lparr>ts := None\<rparr>],
                  log_columns = activity_columns \<rparr>"
  let ?fs1 = "Map.empty(''s3a://your-output-bucket//tbl_songs.parquet'' \<mapsto>
                ([''year'', ''artist_id''], SongsTable (songs_table [dre_song])),
              ''s3a://your-output-bucket//tbl_artists.parquet'' \<mapsto>
                ([], ArtistsTable (artists_table [dre_song])))"
  let ?fs2 = "?fs1(''s3a://your-output-bucket//tbl_users.parquet'' \<mapsto>
                ([], UsersTable (users_table [dre_event\<lparr>ts := None\<rparr>])))"
  have song: "process_song_data utc_one_partition ?input ?out Map.empty = (None, ?fs1)"
    by (simp add: process_song_data_def read_json_def write_parquet_def columns_defs)
  have ns: "next_song [dre_event\<lparr>ts := None\<rparr>] = [dre_event\<lparr>ts := None\<rparr>]"
    by (simp add: next_song_def sql_eq_def dre_event_def)
  have udf: "with_time_columns tz [dre_event\<lparr>ts := None\<rparr>] = Inl UdfTypeError" for tz
    by (simp add: get_timestamp_def)
  have udf': "with_time_columns (time_zone utc_one_partition)
      (next_song [dre_event\<lparr>ts := None\<rparr>]) = Inl UdfTypeError"
    by (simp only: ns udf)
  have "process_log_data utc_one_partition ?input ?out ?fs1 =
      (Some UdfTypeError, ?fs1(?out @ ''/tbl_users.parquet'' \<mapsto>
        ([], UsersTable (users_table (next_song [dre_event\<lparr>ts := None\<rparr>])))))"
    by (rule process_log_data_udf_failure [OF _ _ udf']) (simp_all add: columns_defs)
  then have log: "process_log_data utc_one_partition ?input ?out ?fs1 = (Some UdfTypeError, ?fs2)"
    by (simp add: ns)
  from catalog_outputs_survive_event_failure
    [of utc_one_partition ?input Map.empty UdfTypeError ?fs1 ?fs2] song log
  have m: "main utc_one_partition ?input Map.empty = (Some UdfTypeError, ?fs2)"
    by blast
  show ?thesis
    unfolding m by simp
qed

section \<open>The songplay identifiers\<close>

text \<open>
  The sizes of the partitions depend on the layout and on the number of rows only, so the
  limits of the generator can be stated on the table that was written.
\<close>

lemma map_length_partitions:
  "length xs = length ys \<Longrightarrow> map length (partitions layout xs) = map length (partitions layout ys)"
  by (induction layout arbitrary: xs ys) simp_all

lemma length_partitions: "length (partitions layout rows) = Suc (length layout)"
  by (induction layout arbitrary: rows) simp_all

lemma songplay_id_songplays_row_of: "songplay_id (songplays_row_of x) = fst x"
  by (cases x) (auto simp: songplays_row_of_def)

lemma map_songplay_id_songplays_table:
  "map songplay_id (songplays_table order layout df song_df) =
     map fst (withColumn_id 0 (partitions layout (engine_order order (join_inner df song_df))))"
  by (simp add: songplays_table_def songplay_id_songplays_row_of comp_def)

lemma songplays_table_ids_sorted:
  assumes "length layout < 2 ^ 30"
    and "\<forall>part\<in>set (partitions layout (songplays_table order layout df song_df)). length part \<le> 2 ^ 33"
  shows "sorted_wrt (<) (map (\<lambda>p. sint (songplay_id p)) (songplays_table order layout df song_df))"
proof -
  let ?rows = "songplays_table order layout df song_df"
  let ?parts = "partitions layout (engine_order order (join_inner df song_df))"
  have "map length ?parts = map length (partitions layout ?rows)"
    by (rule map_length_partitions) (simp add: length_songplays_table length_engine_order)
  then have eq: "length ` set ?parts = length ` set (partitions layout ?rows)"
    by (metis set_map)
  have sizes: "\<forall>part\<in>set ?parts. length part \<le> 2 ^ 33"
  proof
    fix part assume "part \<in> set ?parts"
    then have "length part \<in> length ` set (partitions layout ?rows)"
      unfolding eq [symmetric] by (rule imageI)
    then obtain q where "q \<in> set (partitions layout ?rows)" "length part = length q"
      by blast
    with assms(2) show "length part \<le> 2 ^ 33"
      by simp
  qed
  have count: "0 + length ?parts \<le> 2 ^ 30"
    using assms(1) by (simp add: length_partitions)
  from sorted_ids_withColumn_id [OF count sizes]
  have "sorted_wrt (<) (map sint (map fst (withColumn_id 0 ?parts)))"
    by blast
  then have "sorted_wrt (<) (map sint (map songplay_id ?rows))"
    by (simp only: map_songplay_id_songplays_table)
  then show ?thesis
    by (simp add: comp_def)
qed

text \<open>
  A partition of more than \<open>2 ^ 33\<close> rows overflows the row number into the bits of
  the partition index: row number \<open>2 ^ 33\<close> of partition 0 and the first row of
  partition 1 get the same identifier.
\<close>

lemma next_song_replicate:
  "page e = Some ''NextSong'' \<Longrightarrow> next_song (replicate n e) = replicate n e"
  by (simp add: next_song_filter)

lemma with_time_columns_replicate:
  "get_timestamp (ts e) = Inr st \<Longrightarrow>
     with_time_columns tz (replicate n e) = Inr (replicate n (e, time_columns tz st))"
  by (simp add: with_time_columns_Inr)

lemma join_inner_replicate:
  "sql_eq (artist_name s) (artist (fst l)) \<Longrightarrow>
     join_inner (replicate n l) [s] = replicate n (l, s)"
  by (simp add: join_inner_def)

lemma monotonically_increasing_id_collision:
  "monotonically_increasing_id 0 (2 ^ 33) = monotonically_increasing_id 1 0"
  by (simp add: monotonically_increasing_id_def)

lemma songplays_table_overfull_partition:
  assumes "2 ^ 33 < m"
  shows "sql_eq (artist_name s) (artist (fst l)) \<longrightarrow>
           length (songplays_table order [m] (replicate (m + 1) l) [s]) = m + 1 \<and>
           songplay_id (songplays_table order [m] (replicate (m + 1) l) [s] ! (2 ^ 33)) =
           songplay_id (songplays_table order [m] (replicate (m + 1) l) [s] ! m)"
proof (intro conjI impI)
  assume match: "sql_eq (artist_name s) (artist (fst l))"
  let ?x = "(l, s)"
  let ?first = "map (\<lambda>(i, r). (monotonically_increasing_id 0 i, r)) (enumerate 0 (replicate m ?x))"
  have join: "engine_order order (join_inner (replicate (m + 1) l) [s]) = replicate (m + 1) ?x"
    using match by (simp only: join_inner_replicate engine_order_replicate)
  have snoc: "replicate (m + 1) ?x = replicate m ?x @ [?x]"
    by (simp add: replicate_append_same)
  have parts: "partitions [m] (replicate (m + 1) ?x) = [replicate m ?x, [?x]]"
    unfolding snoc by simp
  have ids: "withColumn_id 0 [replicate m ?x, [?x]] =
      ?first @ [(monotonically_increasing_id 1 0, ?x)]"
    by (simp add: enumerate_simps)
  have rows: "songplays_table order [m] (replicate (m + 1) l) [s] =
      map songplays_row_of ?first @ [songplays_row_of (monotonically_increasing_id 1 0, ?x)]"
    unfolding songplays_table_def join parts ids by simp
  have len: "length (map songplays_row_of ?first) = m"
    by simp
  have "(map songplays_row_of ?first @ [songplays_row_of (monotonically_increasing_id 1 0, ?x)]) ! m
      = songplays_row_of (monotonically_increasing_id 1 0, ?x)"
    using len by (metis nth_append_length)
  then have last: "songplay_id (songplays_table order [m] (replicate (m + 1) l) [s] ! m) =
      monotonically_increasing_id 1 0"
    unfolding rows by (simp only: songplay_id_songplays_row_of fst_conv)
  have "?first ! (2 ^ 33) = (monotonically_increasing_id 0 (2 ^ 33), ?x)"
    using assms by (simp add: nth_enumerate_eq)
  then have "map songplays_row_of ?first ! (2 ^ 33) =
      songplays_row_of (monotonically_increasing_id 0 (2 ^ 33), ?x)"
    using assms by simp
  moreover have "(map songplays_row_of ?first
        @ [songplays_row_of (monotonically_increasing_id 1 0, ?x)]) ! (2 ^ 33) =
      map songplays_row_of ?first ! (2 ^ 33)"
    using assms len by (simp only: nth_append if_True)
  ultimately have "songplay_id (songplays_table order [m] (replicate (m + 1) l) [s] ! (2 ^ 33)) =
      monotonically_increasing_id 0 (2 ^ 33)"
    unfolding rows by (simp only: songplay_id_songplays_row_of fst_conv)
  with last show "songplay_id (songplays_table order [m] (replicate (m + 1) l) [s] ! (2 ^ 33)) =
           songplay_id (songplays_table order [m] (replicate (m + 1) l) [s] ! m)"
    by (simp only: monotonically_increasing_id_collision)
next
  assume match: "sql_eq (artist_name s) (artist (fst l))"
  show "length (songplays_table order [m] (replicate (m + 1) l) [s]) = m + 1"
    unfolding length_songplays_table join_inner_replicate [OF match] by simp
qed

lemma process_log_data_overfull_partition:
  assumes "2 ^ 33 < m"
  shows "fst (process_log_data \<lparr> time_zone = tz, join_order = order, join_layout = [m] \<rparr>
           \<lparr> song_data = Some [dre_song], song_columns = catalog_columns,
             log_data = Some (replicate (m + 1) dre_event),
             log_columns = activity_columns \<rparr>
           out Map.empty) = None
         \<and> (case snd (process_log_data \<lparr> time_zone = tz, join_order = order, join_layout = [m] \<rparr>
           \<lparr> song_data = Some [dre_song], song_columns = catalog_columns,
             log_data = Some (replicate (m + 1) dre_event),
             log_columns = activity_columns \<rparr>
           out Map.empty) (out @ ''/tbl_songplays.parquet'') of
             None \<Rightarrow> False
           | Some (cols, t) \<Rightarrow>
               (case t of
                  SongplaysTable rows \<Rightarrow>
                    length rows = m + 1
                    \<and> songplay_id (rows ! (2 ^ 33)) = songplay_id (rows ! m)
                | _ \<Rightarrow> False))"
proof -
  let ?spark = "\<lparr> time_zone = tz, join_order = order, join_layout = [m] \<rparr>"
  let ?logs = "replicate (m + 1) dre_event"
  let ?input = "\<lparr> song_data = Some [dre_song], song_columns = catalog_columns,
                  log_data = Some ?logs,
                  log_columns = activity_columns \<rparr>"
  let ?l = "(dre_event, time_columns tz (1541440796796 * 1000))"
  let ?rows = "songplays_table order [m] (replicate (m + 1) ?l) [dre_song]"
  have page: "page dre_event = Some ''NextSong''"
    by (simp add: dre_event_def)
  have ts: "get_timestamp (ts dre_event) = Inr (1541440796796 * 1000)"
    by (simp add: get_timestamp_dre)
  have df: "with_time_columns (time_zone ?spark) (next_song ?logs) = Inr (replicate (m + 1) ?l)"
    unfolding next_song_replicate [OF page] spark_session.select_convs
    by (rule with_time_columns_replicate [OF ts])
  have "process_log_data ?spark ?input out Map.empty =
     (None, Map.empty(out @ ''/tbl_users.parquet'' \<mapsto> ([], UsersTable (users_table (next_song ?logs))),
              out @ ''/tbl_time.parquet'' \<mapsto>
                ([''year'', ''month''], TimeTable (time_table (replicate (m + 1) ?l))),
              out @ ''/tbl_songplays.parquet'' \<mapsto>
                ([''year'', ''month''],
                 SongplaysTable (songplays_table (join_order ?spark)
                     (join_layout ?spark) (replicate (m + 1) ?l) [dre_song]))))"
    by (rule process_log_data_run [OF _ _ df]) (simp_all add: columns_defs)
  then have run: "fst (process_log_data ?spark ?input out Map.empty) = None"
    and written: "snd (process_log_data ?spark ?input out Map.empty) (out @ ''/tbl_songplays.parquet'')
      = Some ([''year'', ''month''], SongplaysTable ?rows)"
    by simp_all
  have match: "sql_eq (artist_name dre_song) (artist (fst ?l))"
    by (simp add: sql_eq_def dre_song_def dre_event_def)
  from songplays_table_overfull_partition [OF assms, of dre_song ?l] match
  have "length ?rows = m + 1 \<and> songplay_id (?rows ! (2 ^ 33)) = songplay_id (?rows ! m)"
    by blast
  with run show ?thesis
    unfolding written by simp
qed

text \<open>
  C6, as amended. Whenever the event transform completes, and the engine laid the joined
  rows out in at most \<open>2 ^ 30\<close> partitions of at most \<open>2 ^ 33\<close> rows each (the
  documented limits of the generator), the songplay_id values of the songplays table,
  read as signed 64-bit integers, are strictly increasing in the order of partition and
  row, hence pairwise distinct. They need not be contiguous: the first row of partition
  \<open>p\<close> gets \<open>p * 2 ^ 33\<close>.
\<close>

theorem songplay_ids_distinct_within_limits:
  assumes "process_log_data spark input_data output_data fs = (None, fs')"
  shows "\<exists>rows. fs' (output_data @ ''/tbl_songplays.parquet'') =
                  Some ([''year'', ''month''], SongplaysTable rows)
           \<and> (length (join_layout spark) < 2 ^ 30
                \<and> (\<forall>part\<in>set (partitions (join_layout spark) rows). length part \<le> 2 ^ 33) \<longrightarrow>
                 sorted_wrt (<) (map (\<lambda>p. sint (songplay_id p)) rows)
                 \<and> distinct (map songplay_id rows)
                 \<and> (\<forall>i<length rows. \<forall>j<length rows. i \<noteq> j \<longrightarrow>
                       songplay_id (rows ! i) \<noteq> songplay_id (rows ! j)))"
proof -
  from assms obtain df song_df where
    written: "fs' (output_data @ ''/tbl_songplays.parquet'') =
      Some ([''year'', ''month''], SongplaysTable (songplays_table (join_order spark)
          (join_layout spark) df song_df))"
    by (rule process_log_data_ok) simp
  let ?rows = "songplays_table (join_order spark) (join_layout spark) df song_df"
  have "sorted_wrt (<) (map (\<lambda>p. sint (songplay_id p)) ?rows)
        \<and> distinct (map songplay_id ?rows)
        \<and> (\<forall>i<length ?rows. \<forall>j<length ?rows. i \<noteq> j \<longrightarrow>
              songplay_id (?rows ! i) \<noteq> songplay_id (?rows ! j))"
    if limits: "length (join_layout spark) < 2 ^ 30
      \<and> (\<forall>part\<in>set (partitions (join_layout spark) ?rows). length part \<le> 2 ^ 33)"
  proof -
    from limits have s: "sorted_wrt (<) (map (\<lambda>p. sint (songplay_id p)) ?rows)"
      by (intro songplays_table_ids_sorted) blast+
    then have "distinct (map sint (map songplay_id ?rows))"
      by (simp add: strict_sorted_iff comp_def)
    then have d: "distinct (map songplay_id ?rows)"
      using distinct_map [of sint "map songplay_id ?rows"] by blast
    then have "songplay_id (?rows ! i) \<noteq> songplay_id (?rows ! j)"
      if "i < length ?rows" "j < length ?rows" "i \<noteq> j" for i j
      using that by (simp add: distinct_conv_nth)
    with s d show ?thesis by blast
  qed
  with written show ?thesis by blast
qed

theorem songplay_ids_distinct_within_limits_witness:
  "fst (process_log_data \<lparr> time_zone = 0, join_order = [], join_layout = [1] \<rparr>
         \<lparr> song_data = Some [dre_song], song_columns = catalog_columns,
           log_data = Some [dre_event, dre_event],
           log_columns = activity_columns \<rparr>
         ''out'' Map.empty) = None
   \<and> (\<exists>rows. snd (process_log_data \<lparr> time_zone = 0, join_order = [], join_layout = [1] \<rparr>
         \<lparr> song_data = Some [dre_song], song_columns = catalog_columns,
           log_data = Some [dre_event, dre_event],
           log_columns = activity_columns \<rparr>
         ''out'' Map.empty) ''out/tbl_songplays.parquet'' =
           Some ([''year'', ''month''], SongplaysTable rows)
        \<and> map (\<lambda>p. sint (songplay_id p)) rows = [0, 8589934592]
        \<and> sorted_wrt (<) (map (\<lambda>p. sint (songplay_id p)) rows)
        \<and> distinct (map songplay_id rows))"
proof -
  let ?spark = "\<lparr> time_zone = 0, join_order = [], join_layout = [1] \<rparr>"
  let ?logs = "[dre_event, dre_event]"
  let ?input = "\<lparr> song_data = Some [dre_song], song_columns = catalog_columns,
                  log_data = Some ?logs,
                  log_columns = activity_columns \<rparr>"
  let ?l = "(dre_event, time_columns 0 1541440796796000)"
  let ?df = "[?l, ?l]"
  let ?rows = "[songplays_row_of (monotonically_increasing_id 0 0, ?l, dre_song),
                songplays_row_of (monotonically_increasing_id 1 0, ?l, dre_song)]"
  let ?fs = "Map.empty(''out'' @ ''/tbl_users.parquet'' \<mapsto> ([], UsersTable (users_table (next_song ?logs))),
              ''out'' @ ''/tbl_time.parquet'' \<mapsto> ([''year'', ''month''], TimeTable (time_table ?df)),
              ''out'' @ ''/tbl_songplays.parquet'' \<mapsto>
                ([''year'', ''month''],
                 SongplaysTable (songplays_table (join_order ?spark)
                     (join_layout ?spark) ?df [dre_song])))"
  have df: "with_time_columns (time_zone ?spark) (next_song ?logs) = Inr ?df"
    by (simp add: next_song_def sql_eq_def dre_event_def get_timestamp_def)
  have run: "process_log_data ?spark ?input ''out'' Map.empty = (None, ?fs)"
    by (rule process_log_data_run [OF _ _ df]) (simp_all add: columns_defs)
  have join: "join_inner ?df [dre_song] = [(?l, dre_song), (?l, dre_song)]"
    by (simp add: join_inner_def sql_eq_def dre_event_def dre_song_def)
  have table: "songplays_table (join_order ?spark) (join_layout ?spark) ?df [dre_song] = ?rows"
    by (simp add: songplays_table_def join engine_order_no_keys)
  from songplay_ids_distinct_within_limits [OF run] obtain rows where
    written: "?fs (''out'' @ ''/tbl_songplays.parquet'') =
        Some ([''year'', ''month''], SongplaysTable rows)"
    and limits: "length (join_layout ?spark) < 2 ^ 30
        \<and> (\<forall>part\<in>set (partitions (join_layout ?spark) rows). length part \<le> 2 ^ 33) \<longrightarrow>
      sorted_wrt (<) (map (\<lambda>p. sint (songplay_id p)) rows)
      \<and> distinct (map songplay_id rows)
      \<and> (\<forall>i<length rows. \<forall>j<length rows. i \<noteq> j \<longrightarrow>
            songplay_id (rows ! i) \<noteq> songplay_id (rows ! j))"
    by (elim exE conjE) (rule that)
  from written have "rows = songplays_table (join_order ?spark) (join_layout ?spark) ?df [dre_song]"
    by simp
  then have rows: "rows = ?rows"
    by (simp only: table)
  have "length (join_layout ?spark) < 2 ^ 30
        \<and> (\<forall>part\<in>set (partitions (join_layout ?spark) rows). length part \<le> 2 ^ 33)"
    by (simp add: rows)
  with limits have sorted: "sorted_wrt (<) (map (\<lambda>p. sint (songplay_id p)) rows)"
    and distinct: "distinct (map songplay_id rows)"
    by blast+
  have "sint (monotonically_increasing_id 0 0) = int 0 * 2 ^ 33 + int 0"
    "sint (monotonically_increasing_id 1 0) = int 1 * 2 ^ 33 + int 0"
    by (rule sint_monotonically_increasing_id; simp)+
  then have ids: "map (\<lambda>p. sint (songplay_id p)) rows = [0, 8589934592]"
    by (simp add: rows songplay_id_songplays_row_of)
  from written have "snd (process_log_data ?spark ?input ''out'' Map.empty)
      ''out/tbl_songplays.parquet'' = Some ([''year'', ''month''], SongplaysTable rows)"
    unfolding run by simp
  moreover have "fst (process_log_data ?spark ?input ''out'' Map.empty) = None"
    unfolding run by simp
  ultimately show ?thesis
    using ids sorted distinct by (intro conjI exI [of _ rows])
qed

text \<open>
  The claim as stated, for any number of records, fails: \<open>2 ^ 33 + 2\<close> activity
  records of one artist with a catalog record, joined into a partition of
  \<open>2 ^ 33 + 1\<close> rows followed by a partition of one row, give a songplays table whose
  rows at the positions \<open>2 ^ 33\<close> and \<open>2 ^ 33 + 1\<close> have the same songplay_id.
\<close>

theorem songplay_id_collision_counterexample:
  "fst (process_log_data \<lparr> time_zone = 0, join_order = [], join_layout = [2 ^ 33 + 1] \<rparr>
           \<lparr> song_data = Some [dre_song], song_columns = catalog_columns,
             log_data = Some (replicate (2 ^ 33 + 1 + 1) dre_event),
             log_columns = activity_columns \<rparr>
           ''out'' Map.empty) = None
         \<and> (case snd (process_log_data \<lparr> time_zone = 0, join_order = [], join_layout = [2 ^ 33 + 1] \<rparr>
           \<lparr> song_data = Some [dre_song], song_columns = catalog_columns,
             log_data = Some (replicate (2 ^ 33 + 1 + 1) dre_event),
             log_columns = activity_columns \<rparr>
           ''out'' Map.empty) (''out'' @ ''/tbl_songplays.parquet'') of
             None \<Rightarrow> False
           | Some (cols, t) \<Rightarrow>
               (case t of
                  SongplaysTable rows \<Rightarrow>
                    length rows = 2 ^ 33 + 1 + 1
                    \<and> songplay_id (rows ! (2 ^ 33)) = songplay_id (rows ! (2 ^ 33 + 1))
                | _ \<Rightarrow> False))"
  by (rule process_log_data_overfull_partition) simp


end
